theory Spec2Isabelle
  imports Complex_Main "HOL-Library.Multiset" "HOL-Library.AList" "HOL-Library.List_Lexorder"
    "HOL-Library.Char_ord"
begin

section \<open>Common data: exceptions and floating-point values\<close>

text \<open>
  The Python exceptions the modelled code can raise. A \<open>ValueError\<close> carries its message.
\<close>

datatype error = ValueError string | KeyError | IndexError | ZeroDivisionError | TypeError

text \<open>
  A Python float as far as comparisons see it: a finite value (idealised as a real
  number), one of the two infinities, or NaN.
\<close>

datatype pyfloat = Fin real | PosInf | NegInf | NaN

text \<open>Python's \<^verbatim>\<open>x > 0\<close> on a float: every comparison with NaN is false.\<close>

fun gt_zero :: "pyfloat \<Rightarrow> bool" where
  "gt_zero (Fin r) = (0 < r)"
| "gt_zero PosInf = True"
| "gt_zero NegInf = False"
| "gt_zero NaN = False"

section \<open>nhe/source/base.py: seismic sources\<close>

record ('id, 'trt, 'mfd) SeismicSource =
  source_id :: 'id
  name :: string
  tectonic_region_type :: 'trt
  mfd :: 'mfd
  rupture_mesh_spacing :: pyfloat

text \<open>
  \<^verbatim>\<open>SeismicSource.__init__\<close>. The validity test \<^verbatim>\<open>const.TRT.is_valid\<close> and the
  \<^verbatim>\<open>%r\<close> formatting of the region type belong to other modules and are parameters.
\<close>

definition SeismicSource_init ::
  "('trt \<Rightarrow> bool) \<Rightarrow> ('trt \<Rightarrow> string) \<Rightarrow> 'id \<Rightarrow> string \<Rightarrow> 'trt \<Rightarrow> 'mfd \<Rightarrow> pyfloat
    \<Rightarrow> error + ('id, 'trt, 'mfd) SeismicSource" where
  "SeismicSource_init is_valid repr sid nm trt m spacing =
     (if \<not> is_valid trt then
        Inl (ValueError (''unknown tectonic region type '' @ repr trt))
      else if \<not> gt_zero spacing then
        Inl (ValueError ''rupture mesh spacing must be positive'')
      else
        Inr \<lparr>source_id = sid, name = nm, tectonic_region_type = trt, mfd = m,
             rupture_mesh_spacing = spacing\<rparr>)"

section \<open>openquake/calculators/disaggregation.py: data\<close>

text \<open>
  Floating-point arrays are lists of real numbers: arithmetic is exact, so rounding is
  outside the model. A multi-dimensional array is a nested list, rectangular as numpy
  arrays are. The value stored under a result key is one flattened array per PMF view.
\<close>

type_synonym edges = "real list"
type_synonym bin_edges = "edges \<times> edges \<times> edges \<times> edges \<times> edges"
type_synonym probs = "real list list"

text \<open>A quartet \<^verbatim>\<open>(poe, gsim, imt, rlzi)\<close>; the PoE is \<^verbatim>\<open>None\<close> when a fixed level is configured.\<close>

type_synonym 'g quartet = "real option \<times> 'g \<times> string \<times> nat"

text \<open>The composite key \<^verbatim>\<open>(sid, rlz.id, poe, imt, iml, trt_names)\<close>.\<close>

type_synonym result_key = "nat \<times> nat \<times> real option \<times> string \<times> real \<times> string list"

text \<open>The list \<^verbatim>\<open>[mags, dists, lons, lats, pnes, trts]\<close> handed to the arranger.\<close>

type_synonym bins =
  "real list \<times> real list \<times> real list \<times> real list \<times> real list list \<times> nat list"

record site =
  site_sid :: nat
  site_lon :: real
  site_lat :: real

record oqparam =
  truncation_level :: real
  num_epsilon_bins :: nat
  iml_disagg :: "(string \<times> real) list"
  imtls :: "(string \<times> real list) list"
  poes_disagg :: "real list"
  mag_bin_width :: real
  distance_bin_width :: real
  coordinate_bin_width :: real
  concurrent_tasks :: nat
  maximum_distance :: real
  investigation_time :: real

text \<open>The output of \<^verbatim>\<open>disagg.collect_bins_data\<close>: \<open>U\<close> ruptures, \<open>N\<close> sites, \<open>Q\<close> quartets.\<close>

record bins_data =
  bd_mags :: "real list"
  bd_dists :: "real list list"
  bd_lons :: "real list list"
  bd_lats :: "real list list"
  bd_eps :: "real list list list list"
  bd_trts :: "nat list"

text \<open>
  The argument tuple of one \<^verbatim>\<open>compute_disagg\<close> task. Of the source filter only the site
  collection is read; the monitor is modelled inside the task.
\<close>

record ('src, 'cm, 'g) task =
  t_sitecol :: "site list"
  t_sources :: "'src list"
  t_cmaker :: 'cm
  t_quartets :: "'g quartet list"
  t_imls :: "real list list"
  t_trt_names :: "string list"
  t_bin_edges :: "(nat \<times> bin_edges) list"
  t_oqparam :: oqparam

section \<open>openquake/calculators/disaggregation.py: the task\<close>

text \<open>numpy's \<^verbatim>\<open>a[:, i]\<close> on a two-dimensional array, and \<^verbatim>\<open>a.sum()\<close>.\<close>

definition column :: "nat \<Rightarrow> 'a list list \<Rightarrow> error + 'a list" where
  "column i a =
     (if list_all (\<lambda>row. i < length row) a then Inr (map (\<lambda>row. row ! i) a)
      else Inl IndexError)"

definition array_sum :: "real list list \<Rightarrow> real" where
  "array_sum a = sum_list (map sum_list a)"

text \<open>The entry \<^verbatim>\<open>bins[4]\<close>: the probabilities of non-exceedance.\<close>

definition bins4 :: "bins \<Rightarrow> real list list" where
  "bins4 bins = fst (snd (snd (snd (snd bins))))"

text \<open>
  \<^verbatim>\<open>_disagg_result\<close>. The arranger \<^verbatim>\<open>disagg._arrange_data_in_bins\<close> and the table
  \<^verbatim>\<open>disagg.pmf_map\<close> (view name, projection) belong to hazardlib and are parameters; the
  arranger can raise. The cache is a dictionary keyed by the sum of the probabilities of
  non-exceedance; the monitor \<^verbatim>\<open>arranging_mon\<close> is the number of times it was entered.
\<close>

definition disagg_result ::
  "(bins \<Rightarrow> bin_edges \<times> string list \<Rightarrow> error + 'm) \<Rightarrow> (string list \<times> ('m \<Rightarrow> real list)) list
    \<Rightarrow> bins \<Rightarrow> bin_edges \<times> string list \<Rightarrow> (string \<times> real) list \<Rightarrow> (real \<rightharpoonup> probs) \<Rightarrow> nat
    \<Rightarrow> error + (probs \<times> (real \<rightharpoonup> probs) \<times> nat)" where
  "disagg_result arrange_data_in_bins pmf_map bins edges imt_disagg cache arranging_mon =
     (if imt_disagg \<noteq> [] then
        (let pnesum = array_sum (bins4 bins) in
         case cache pnesum of
           Some result \<Rightarrow> Inr (result, cache, arranging_mon)
         | None \<Rightarrow>
             (case arrange_data_in_bins bins edges of
                Inl e \<Rightarrow> Inl e
              | Inr matrix \<Rightarrow>
                  (let result = map (\<lambda>(key, fn). fn matrix) pmf_map
                   in Inr (result, cache(pnesum \<mapsto> result), Suc arranging_mon))))
      else
        (case arrange_data_in_bins bins edges of
           Inl e \<Rightarrow> Inl e
         | Inr mat \<Rightarrow> Inr (map (\<lambda>(key, fn). fn mat) pmf_map, cache, Suc arranging_mon)))"

text \<open>
  The body of the loop over quartets of \<^verbatim>\<open>compute_disagg\<close>, for the site at position
  \<open>i\<close> with identifier \<open>sid\<close> and edges \<open>edges\<close>; \<open>pnes\<close> is \<^verbatim>\<open>bd.eps\<close> transposed, one
  entry per quartet.
\<close>

fun quartet_loop ::
  "(bins \<Rightarrow> bin_edges \<times> string list \<Rightarrow> error + 'm) \<Rightarrow> (string list \<times> ('m \<Rightarrow> real list)) list
    \<Rightarrow> ('src, 'cm, 'g) task \<Rightarrow> bins_data \<Rightarrow> nat \<Rightarrow> nat \<Rightarrow> bin_edges \<times> string list
    \<Rightarrow> (nat \<times> real list list list) list \<Rightarrow> (real \<rightharpoonup> probs) \<Rightarrow> nat
    \<Rightarrow> (result_key \<times> probs) list \<Rightarrow> error + ((result_key \<times> probs) list \<times> nat)" where
  "quartet_loop arr pmf t bd i sid edges [] cache mon result = Inr (result, mon)"
| "quartet_loop arr pmf t bd i sid edges ((q, pnes) # rest) cache mon result =
     (if \<not> q < length (t_quartets t) then Inl IndexError
      else
        (case t_quartets t ! q of (poe, gsim, imt, rlzi) \<Rightarrow>
         (case (if iml_disagg (t_oqparam t) \<noteq> [] then
                  (case map_of (iml_disagg (t_oqparam t)) imt of
                     None \<Rightarrow> Inl KeyError | Some l \<Rightarrow> Inr l)
                else if q < length (t_imls t) \<and> i < length (t_imls t ! q)
                  then Inr (t_imls t ! q ! i) else Inl IndexError) of
            Inl e \<Rightarrow> Inl e
          | Inr iml \<Rightarrow>
         (case column i (bd_dists bd) of Inl e \<Rightarrow> Inl e | Inr dists \<Rightarrow>
         (case column i (bd_lons bd) of Inl e \<Rightarrow> Inl e | Inr lons \<Rightarrow>
         (case column i (bd_lats bd) of Inl e \<Rightarrow> Inl e | Inr lats \<Rightarrow>
         (case column i pnes of Inl e \<Rightarrow> Inl e | Inr pnes_i \<Rightarrow>
         (case disagg_result arr pmf (bd_mags bd, dists, lons, lats, pnes_i, bd_trts bd) edges
                 (iml_disagg (t_oqparam t)) cache mon of
            Inl e \<Rightarrow> Inl e
          | Inr (r, cache', mon') \<Rightarrow>
              quartet_loop arr pmf t bd i sid edges rest cache' mon'
                (AList.update (sid, rlzi, poe, imt, iml, t_trt_names t) r result)))))))))"

text \<open>
  The loop over the sites of \<^verbatim>\<open>compute_disagg\<close>: a site whose identifier is not a key
  of \<^verbatim>\<open>bin_edges\<close> raises \<^verbatim>\<open>KeyError\<close> inside the \<^verbatim>\<open>try\<close> and is skipped; every other
  site starts with an empty cache.
\<close>

fun site_loop ::
  "(bins \<Rightarrow> bin_edges \<times> string list \<Rightarrow> error + 'm) \<Rightarrow> (string list \<times> ('m \<Rightarrow> real list)) list
    \<Rightarrow> ('src, 'cm, 'g) task \<Rightarrow> bins_data \<Rightarrow> (nat \<times> site) list \<Rightarrow> nat
    \<Rightarrow> (result_key \<times> probs) list \<Rightarrow> error + ((result_key \<times> probs) list \<times> nat)" where
  "site_loop arr pmf t bd [] mon result = Inr (result, mon)"
| "site_loop arr pmf t bd ((i, s) # rest) mon result =
     (case map_of (t_bin_edges t) (site_sid s) of
        None \<Rightarrow> site_loop arr pmf t bd rest mon result
      | Some be \<Rightarrow>
          (case quartet_loop arr pmf t bd i (site_sid s) (be, t_trt_names t)
                  (enumerate 0 (transpose (bd_eps bd))) Map.empty mon result of
             Inl e \<Rightarrow> Inl e
           | Inr (result', mon') \<Rightarrow> site_loop arr pmf t bd rest mon' result'))"

text \<open>
  \<^verbatim>\<open>compute_disagg\<close>. The collector \<^verbatim>\<open>disagg.collect_bins_data\<close> belongs to hazardlib and
  is a parameter; it can raise. The result is the dictionary in insertion order.
\<close>

definition compute_disagg ::
  "((string \<times> nat) list \<Rightarrow> 'src list \<Rightarrow> site list \<Rightarrow> 'cm \<Rightarrow> 'g quartet list \<Rightarrow> real list list
      \<Rightarrow> real \<Rightarrow> nat \<Rightarrow> error + bins_data)
    \<Rightarrow> (bins \<Rightarrow> bin_edges \<times> string list \<Rightarrow> error + 'm) \<Rightarrow> (string list \<times> ('m \<Rightarrow> real list)) list
    \<Rightarrow> ('src, 'cm, 'g) task \<Rightarrow> error + (result_key \<times> probs) list" where
  "compute_disagg collect_bins_data arr pmf t =
     (let trt_num = map (\<lambda>(i, trt). (trt, i)) (enumerate 0 (t_trt_names t)) in
      case collect_bins_data trt_num (t_sources t) (t_sitecol t) (t_cmaker t) (t_quartets t)
             (t_imls t) (truncation_level (t_oqparam t)) (num_epsilon_bins (t_oqparam t)) of
        Inl e \<Rightarrow> Inl e
      | Inr bd \<Rightarrow>
          if length (bd_mags bd) = 0 then Inr []
          else
            (case site_loop arr pmf t bd (enumerate 0 (t_sitecol t)) 0 [] of
               Inl e \<Rightarrow> Inl e
             | Inr (result, mon) \<Rightarrow> Inr result))"

section \<open>openquake/calculators/disaggregation.py: the reducer\<close>





section \<open>openquake/calculators/disaggregation.py: the calculator\<close>

text \<open>
  A call \<^verbatim>\<open>logging.info(fmt, *args)\<close> is recorded as the format with its arguments.
\<close>

datatype log_arg = LInt nat | LStr string | LShape "int list" | LLoc real real

type_synonym log_record = "string \<times> log_arg list"

text \<open>
  What \<^verbatim>\<open>PmapGetter.get\<close> gives for one site and one realization: it raises
  \<^verbatim>\<open>ValueError\<close> on empty probability maps; otherwise the site is in the map or not, and
  its curve, converted, gives the array of PoEs of every intensity measure type.
\<close>

datatype pmap_result = EmptyPmap | Pmap "(string \<Rightarrow> real list) option"

type_synonym curves = "(nat \<times> (string \<Rightarrow> real list)) list"

record 'src src_group =
  sg_trt :: string
  sg_min_mag :: real
  sg_max_mag :: real
  sg_sources :: "'src list"

record 'src source_model =
  sm_ordinal :: nat
  sm_name :: string
  src_groups :: "'src src_group list"

text \<open>
  The calculator: the parameters, the site collection, the datastore entries
  \<^verbatim>\<open>bb_dict\<close> (a bounding box for every site) and \<^verbatim>\<open>csm_info/sg_data['effrup']\<close>, the
  source models of \<^verbatim>\<open>csm\<close>, and of \<^verbatim>\<open>rlzs_assoc\<close> the ordinals of the realizations and
  those of each source model.
\<close>

record ('src, 'bb) disagg_calc =
  dc_oqparam :: oqparam
  dc_sitecol :: "site list"
  dc_bb_dict :: "nat \<Rightarrow> 'bb"
  dc_effrup :: "int list"
  dc_source_models :: "'src source_model list"
  dc_realizations :: "nat list"
  dc_rlzs_by_smodel :: "nat \<Rightarrow> nat list"
  dc_pgetter :: "nat \<Rightarrow> nat \<Rightarrow> pmap_result"

text \<open>
  The functions of other modules that \<^verbatim>\<open>full_disaggregation\<close> calls: the truth value and
  the method \<^verbatim>\<open>bins_edges\<close> of a bounding box, splitting and filtering a source,
  \<^verbatim>\<open>get_rlzs_by_gsim\<close>, \<^verbatim>\<open>ContextMaker\<close>, \<^verbatim>\<open>disagg.build_ql\<close>, \<^verbatim>\<open>split_in_blocks\<close>, and the
  formatting of a float and of an integer by \<^verbatim>\<open>%s\<close> and \<^verbatim>\<open>%d\<close>.
\<close>

record ('src, 'bb, 'rg, 'cm, 'g) hazardlib =
  bb_bool :: "'bb \<Rightarrow> bool"
  bins_edges :: "'bb \<Rightarrow> real \<Rightarrow> real \<Rightarrow> edges \<times> edges \<times> edges"
  split_filter :: "site list \<Rightarrow> real \<Rightarrow> 'src \<Rightarrow> 'src list"
  get_rlzs_by_gsim :: "string \<Rightarrow> nat \<Rightarrow> 'rg"
  ContextMaker :: "'rg \<Rightarrow> real \<Rightarrow> 'cm"
  build_ql :: "'rg \<Rightarrow> (string \<times> real list) list \<Rightarrow> real list \<Rightarrow> curves list
                \<Rightarrow> 'g quartet list \<times> real list list"
  split_in_blocks :: "'src list \<Rightarrow> int \<Rightarrow> 'src list list"
  str_float :: "real \<Rightarrow> string"
  str_int :: "nat \<Rightarrow> string"

text \<open>
  What \<^verbatim>\<open>full_disaggregation\<close> leaves behind, also when it raises: the attribute
  \<^verbatim>\<open>self.bin_edges\<close>, the log, and the tasks handed to \<^verbatim>\<open>parallel.Starmap\<close>.
\<close>

record ('src, 'cm, 'g) run_state =
  self_bin_edges :: "(nat \<times> bin_edges) list"
  logged :: "log_record list"
  submitted :: "('src, 'cm, 'g) task list"

definition POE_TOO_BIG ::
  "string \<Rightarrow> string \<Rightarrow> string \<Rightarrow> string \<Rightarrow> string \<Rightarrow> string \<Rightarrow> string" where
  "POE_TOO_BIG poe sm_id nm min_poe rlzi imt =
     ''You are trying to disaggregate for poe='' @ poe @ ''.'' @ [CHR 0x0A] @
     ''However the source model #'' @ sm_id @ '', '' @ [CHR 0x27] @ nm @ [CHR 0x27] @ '','' @
     [CHR 0x0A] @
     ''produces at most probabilities of '' @ min_poe @ '' for rlz=#'' @ rlzi @ '', IMT='' @
     imt @ ''.'' @ [CHR 0x0A] @
     ''The disaggregation PoE is too big or your model is wrong,'' @ [CHR 0x0A] @
     ''producing too small PoEs.''"

text \<open>\<^verbatim>\<open>get_curves\<close>: the dictionary from realization to curves, and what it logs.\<close>

definition get_curves ::
  "(nat \<Rightarrow> nat \<Rightarrow> pmap_result) \<Rightarrow> oqparam \<Rightarrow> nat list \<Rightarrow> nat \<Rightarrow> curves \<times> log_record list" where
  "get_curves pgetter_get oq realizations sid =
     fold (\<lambda>rlz (dic, lg).
        case pgetter_get sid rlz of
          EmptyPmap \<Rightarrow>
            (dic, lg @ [(''hazard curve contains all zero probabilities; skipping site %d, rlz=%d'',
                         [LInt sid, LInt rlz])])
        | Pmap None \<Rightarrow> (dic, lg)
        | Pmap (Some poes) \<Rightarrow>
            fold (\<lambda>imt_str (dic, lg).
               if list_all (\<lambda>x. x = 0) (poes imt_str) then
                 (dic, lg @ [(''hazard curve contains all zero probabilities; skipping site %d, rlz=%d, IMT=%s'',
                              [LInt sid, LInt rlz, LStr imt_str])])
               else (AList.update rlz poes dic, lg))
              (map fst (imtls oq)) (dic, lg))
       realizations ([], [])"

text \<open>\<^verbatim>\<open>numpy.linspace(start, stop, num)\<close> and \<^verbatim>\<open>numpy.arange(a, b)\<close> on integers.\<close>

definition linspace :: "real \<Rightarrow> real \<Rightarrow> nat \<Rightarrow> real list" where
  "linspace start stop num =
     (if num = 1 then [start]
      else map (\<lambda>i. start + real i * ((stop - start) / real (num - 1))) [0..<num])"

definition arange :: "int \<Rightarrow> int \<Rightarrow> int list" where
  "arange a b = [a..b - 1]"

text \<open>The builtins \<^verbatim>\<open>min\<close> and \<^verbatim>\<open>max\<close> on a sequence: they raise on an empty one.\<close>

definition py_min :: "real list \<Rightarrow> error + real" where
  "py_min xs =
     (case xs of [] \<Rightarrow> Inl (ValueError ''min() arg is an empty sequence'')
      | x # r \<Rightarrow> Inr (fold min r x))"

definition py_max :: "real list \<Rightarrow> error + real" where
  "py_max xs =
     (case xs of [] \<Rightarrow> Inl (ValueError ''max() arg is an empty sequence'')
      | x # r \<Rightarrow> Inr (fold max r x))"

text \<open>
  The magnitude edges of lines 216 to 218. The division by a zero bin width is taken
  to raise \<^verbatim>\<open>ZeroDivisionError\<close>, in \<open>full_disaggregation\<close> below.
\<close>

definition mag_edges_of :: "real \<Rightarrow> real \<Rightarrow> real \<Rightarrow> edges" where
  "mag_edges_of w min_mag max_mag =
     map (\<lambda>k. w * real_of_int k) (arange \<lfloor>min_mag / w\<rfloor> (\<lceil>max_mag / w\<rceil> + 1))"

text \<open>
  The loop that builds \<^verbatim>\<open>self.bin_edges\<close> (lines 221 to 232): a site with an empty
  bounding box is logged and skipped.
\<close>

fun bin_edges_loop ::
  "('src, 'bb, 'rg, 'cm, 'g) hazardlib \<Rightarrow> ('src, 'bb) disagg_calc \<Rightarrow> edges \<Rightarrow> edges \<Rightarrow> nat
    \<Rightarrow> nat list \<Rightarrow> (nat \<times> bin_edges) list \<Rightarrow> log_record list
    \<Rightarrow> (nat \<times> bin_edges) list \<times> log_record list" where
  "bin_edges_loop H self mag_edges eps_edges ntrts [] be lg = (be, lg)"
| "bin_edges_loop H self mag_edges eps_edges ntrts (sid # sids) be lg =
     (let bb = dc_bb_dict self sid in
      if \<not> bb_bool H bb then
        bin_edges_loop H self mag_edges eps_edges ntrts sids be
          (lg @ [(''site %d was too far, skipping disaggregation'', [LInt sid])])
      else
        (case bins_edges H bb (distance_bin_width (dc_oqparam self))
                (coordinate_bin_width (dc_oqparam self)) of
           (dist_edges, lon_edges, lat_edges) \<Rightarrow>
             bin_edges_loop H self mag_edges eps_edges ntrts sids
               (AList.update sid (mag_edges, dist_edges, lon_edges, lat_edges, eps_edges) be)
               (lg @ [(''bins %s for sid %d'',
                       [LShape (map (\<lambda>edges. int (length edges) - 1)
                                  [mag_edges, dist_edges, lon_edges, lat_edges, eps_edges]
                                @ [int ntrts]),
                        LInt sid])])))"

text \<open>
  Lines 240 to 243: the array \<^verbatim>\<open>max_poe\<close>, indexed by realization and intensity measure
  type, is raised to the maximum of each curve. Indexing it beyond the number \<open>R\<close> of
  realizations raises \<^verbatim>\<open>IndexError\<close>; the maximum of an empty array raises \<^verbatim>\<open>ValueError\<close>.
\<close>

fun populate_imts ::
  "nat \<Rightarrow> nat \<Rightarrow> (string \<Rightarrow> real list) \<Rightarrow> string list \<Rightarrow> (nat \<times> string \<Rightarrow> real)
    \<Rightarrow> error + (nat \<times> string \<Rightarrow> real)" where
  "populate_imts R rlzi poes [] max_poe = Inr max_poe"
| "populate_imts R rlzi poes (imt # imts) max_poe =
     (if \<not> rlzi < R then Inl IndexError
      else
        (case poes imt of
           [] \<Rightarrow> Inl (ValueError ''zero-size array to reduction operation maximum which has no identity'')
         | x # xs \<Rightarrow>
             populate_imts R rlzi poes imts
               (max_poe((rlzi, imt) := max (max_poe (rlzi, imt)) (fold max xs x)))))"

fun populate_curve ::
  "nat \<Rightarrow> string list \<Rightarrow> curves \<Rightarrow> (nat \<times> string \<Rightarrow> real) \<Rightarrow> error + (nat \<times> string \<Rightarrow> real)" where
  "populate_curve R imts [] max_poe = Inr max_poe"
| "populate_curve R imts ((rlzi, poes) # rest) max_poe =
     (case populate_imts R rlzi poes imts max_poe of
        Inl e \<Rightarrow> Inl e
      | Inr max_poe' \<Rightarrow> populate_curve R imts rest max_poe')"

text \<open>The loop over the sites of lines 236 to 251, for one source model.\<close>

fun site_poe_loop ::
  "('src, 'bb, 'rg, 'cm, 'g) hazardlib \<Rightarrow> ('src, 'bb) disagg_calc \<Rightarrow> nat \<Rightarrow> string list
    \<Rightarrow> (site \<times> curves) list \<Rightarrow> (nat \<times> string \<Rightarrow> real) \<Rightarrow> log_record list
    \<Rightarrow> error option \<times> (nat \<times> string \<Rightarrow> real) \<times> log_record list" where
  "site_poe_loop H self R imts [] max_poe lg = (None, max_poe, lg)"
| "site_poe_loop H self R imts ((s, curve) # rest) max_poe lg =
     (case populate_curve R imts curve max_poe of
        Inl e \<Rightarrow> (Some e, max_poe, lg)
      | Inr max_poe' \<Rightarrow>
          if curve = [] then site_poe_loop H self R imts rest max_poe' lg
          else if \<not> bb_bool H (dc_bb_dict self (site_sid s)) then
            site_poe_loop H self R imts rest max_poe'
              (lg @ [(''location %s was too far, skipping disaggregation'',
                      [LLoc (site_lon s) (site_lat s)])])
          else site_poe_loop H self R imts rest max_poe' lg)"

text \<open>
  The check of lines 253 to 261 over the thresholds, the realizations of the source
  model and the intensity measure types, in the order of the three nested loops.
\<close>

fun check_poes ::
  "('src, 'bb, 'rg, 'cm, 'g) hazardlib \<Rightarrow> nat \<Rightarrow> nat \<Rightarrow> string \<Rightarrow> (nat \<times> string \<Rightarrow> real)
    \<Rightarrow> (real \<times> nat \<times> string) list \<Rightarrow> error option" where
  "check_poes H R sm_id nm max_poe [] = None"
| "check_poes H R sm_id nm max_poe ((poe, rlzi, imt) # rest) =
     (if \<not> rlzi < R then Some IndexError
      else
        (let min_poe = max_poe (rlzi, imt) in
         if poe > min_poe then
           Some (ValueError (POE_TOO_BIG (str_float H poe) (str_int H sm_id) nm
                   (str_float H min_poe) (str_int H rlzi) imt))
         else check_poes H R sm_id nm max_poe rest))"

text \<open>The loop over the source groups of a source model (lines 263 to 281).\<close>

fun src_group_loop ::
  "('src, 'bb, 'rg, 'cm, 'g) hazardlib \<Rightarrow> ('src, 'bb) disagg_calc \<Rightarrow> int \<Rightarrow> curves list
    \<Rightarrow> string list \<Rightarrow> (nat \<times> bin_edges) list \<Rightarrow> nat \<Rightarrow> 'src src_group list
    \<Rightarrow> ('src, 'cm, 'g) task list \<Rightarrow> ('src, 'cm, 'g) task list" where
  "src_group_loop H self nblocks cs trts be sm_id [] all_args = all_args"
| "src_group_loop H self nblocks cs trts be sm_id (sg # rest) all_args =
     (let oq = dc_oqparam self;
          split_sources =
            concat (map (split_filter H (dc_sitecol self) (maximum_distance oq)) (sg_sources sg))
      in
      if split_sources = [] then src_group_loop H self nblocks cs trts be sm_id rest all_args
      else
        (let rlzs_by_gsim = get_rlzs_by_gsim H (sg_trt sg) sm_id;
             cmaker = ContextMaker H rlzs_by_gsim (maximum_distance oq)
         in
         case build_ql H rlzs_by_gsim (imtls oq) (poes_disagg oq) cs of
           (quartets, levels) \<Rightarrow>
             src_group_loop H self nblocks cs trts be sm_id rest
               (all_args @
                map (\<lambda>srcs. \<lparr>t_sitecol = dc_sitecol self, t_sources = srcs, t_cmaker = cmaker,
                              t_quartets = quartets, t_imls = levels, t_trt_names = trts,
                              t_bin_edges = be, t_oqparam = oq\<rparr>)
                  (split_in_blocks H split_sources nblocks))))"

text \<open>The loop over the source models (lines 234 to 281).\<close>

fun smodel_loop ::
  "('src, 'bb, 'rg, 'cm, 'g) hazardlib \<Rightarrow> ('src, 'bb) disagg_calc \<Rightarrow> int \<Rightarrow> curves list
    \<Rightarrow> string list \<Rightarrow> (nat \<times> bin_edges) list \<Rightarrow> 'src source_model list
    \<Rightarrow> (nat \<times> string \<Rightarrow> real) \<Rightarrow> ('src, 'cm, 'g) task list \<Rightarrow> log_record list
    \<Rightarrow> error option \<times> ('src, 'cm, 'g) task list \<times> log_record list" where
  "smodel_loop H self nblocks cs trts be [] max_poe all_args lg = (None, all_args, lg)"
| "smodel_loop H self nblocks cs trts be (smodel # rest) max_poe all_args lg =
     (let oq = dc_oqparam self; sm_id = sm_ordinal smodel in
      case site_poe_loop H self (length (dc_realizations self)) (map fst (imtls oq))
             (zip (dc_sitecol self) cs) max_poe lg of
        (Some e, max_poe', lg') \<Rightarrow> (Some e, all_args, lg')
      | (None, max_poe', lg') \<Rightarrow>
          (case check_poes H (length (dc_realizations self)) sm_id (sm_name smodel) max_poe'
                  [(poe, rlzi, imt). poe \<leftarrow> poes_disagg oq, rlzi \<leftarrow> dc_rlzs_by_smodel self sm_id,
                                     imt \<leftarrow> map fst (imtls oq)] of
             Some e \<Rightarrow> (Some e, all_args, lg')
           | None \<Rightarrow>
               smodel_loop H self nblocks cs trts be rest max_poe'
                 (src_group_loop H self nblocks cs trts be sm_id (src_groups smodel) all_args)
                 lg'))"

text \<open>
  \<^verbatim>\<open>full_disaggregation\<close>, up to the call of \<^verbatim>\<open>parallel.Starmap\<close>: the outcome is the
  exception raised, if any, with the state left behind. Running the submitted tasks
  is \<open>compute_disagg\<close>, reducing their results is \<open>Starmap_reduce\<close>.
\<close>

definition full_disaggregation ::
  "('src, 'bb, 'rg, 'cm, 'g) hazardlib \<Rightarrow> ('src, 'bb) disagg_calc
    \<Rightarrow> error option \<times> ('src, 'cm, 'g) run_state" where
  "full_disaggregation H self =
     (let oq = dc_oqparam self;
          tl = truncation_level oq;
          sitecol = dc_sitecol self;
          w = mag_bin_width oq;
          eps_edges = linspace (- tl) tl (num_epsilon_bins oq + 1);
          cl = map (get_curves (dc_pgetter self) oq (dc_realizations self)) (map site_sid sitecol);
          cs = map fst cl;
          lg0 = concat (map snd cl);
          num_grps = length (filter (\<lambda>effrup. effrup > 0) (dc_effrup self))
      in
      if num_grps = 0 then
        (Some ZeroDivisionError, \<lparr>self_bin_edges = [], logged = lg0, submitted = []\<rparr>)
      else
        (let nblocks = \<lceil>real (concurrent_tasks oq) / real num_grps\<rceil>;
             sgs = concat (map src_groups (dc_source_models self));
             trts = sort (remdups (map sg_trt sgs))
         in
         case py_min (map sg_min_mag sgs) of
           Inl e \<Rightarrow> (Some e, \<lparr>self_bin_edges = [], logged = lg0, submitted = []\<rparr>)
         | Inr min_mag \<Rightarrow>
         (case py_max (map sg_max_mag sgs) of
           Inl e \<Rightarrow> (Some e, \<lparr>self_bin_edges = [], logged = lg0, submitted = []\<rparr>)
         | Inr max_mag \<Rightarrow>
             if w = 0 then
               (Some ZeroDivisionError, \<lparr>self_bin_edges = [], logged = lg0, submitted = []\<rparr>)
             else
               (case bin_edges_loop H self (mag_edges_of w min_mag max_mag) eps_edges
                       (length trts) (map site_sid sitecol) [] lg0 of
                  (be, lg1) \<Rightarrow>
                    (case smodel_loop H self nblocks cs trts be (dc_source_models self)
                            (\<lambda>_. 0) [] lg1 of
                       (Some e, all_args, lg2) \<Rightarrow>
                         (Some e, \<lparr>self_bin_edges = be, logged = lg2, submitted = []\<rparr>)
                     | (None, all_args, lg2) \<Rightarrow>
                         (None, \<lparr>self_bin_edges = be, logged = lg2, submitted = all_args\<rparr>))))))"

section \<open>openquake/calculators/disaggregation.py: saving a result\<close>

text \<open>
  The datastore maps a name to a group of named arrays with its attributes. Assigning a
  dictionary of arrays to a name creates the group, with no attribute yet.
\<close>

datatype attr_value =
  AInt nat | AStr string | AFloat real | AStrs "string list" | AArray "real list"
  | ALoc real real | AFloats "real list"

type_synonym dataset = "(string \<times> real list) list \<times> (string \<times> attr_value) list"

type_synonym datastore = "(string \<times> dataset) list"

text \<open>Python's \<^verbatim>\<open>sep.join(strings)\<close>.\<close>

fun join :: "string \<Rightarrow> string list \<Rightarrow> string" where
  "join sep [] = []"
| "join sep [x] = x"
| "join sep (x # y # r) = x @ sep @ join sep (y # r)"

definition DISAGG_RES_FMT :: "string \<Rightarrow> string \<Rightarrow> string \<Rightarrow> string \<Rightarrow> string \<Rightarrow> string" where
  "DISAGG_RES_FMT poe rlz imt lon lat =
     ''disagg/'' @ poe @ ''rlz-'' @ rlz @ ''-'' @ imt @ ''-'' @ lon @ ''-'' @ lat"

text \<open>
  \<^verbatim>\<open>save_disagg_result\<close>. The keys of \<^verbatim>\<open>disagg.pmf_map\<close>, tuples of strings, and the
  formatting by \<^verbatim>\<open>%s\<close> are parameters. The list \<^verbatim>\<open>poe_agg\<close> reads \<^verbatim>\<open>dic[pmf]\<close> for the
  sorted keys of \<^verbatim>\<open>dic\<close>, so the key is always there.
\<close>

definition save_disagg_result ::
  "(real \<Rightarrow> string) \<Rightarrow> (nat \<Rightarrow> string) \<Rightarrow> string list list \<Rightarrow> site list \<Rightarrow> datastore \<Rightarrow> nat
    \<Rightarrow> bin_edges \<Rightarrow> string list \<Rightarrow> probs \<Rightarrow> nat \<Rightarrow> real \<Rightarrow> string \<Rightarrow> real \<Rightarrow> real option
    \<Rightarrow> error + datastore" where
  "save_disagg_result str_f str_i pmf_keys sitecol ds site_id edges5 trt_names matrix rlz_id
      inv_time imt_str iml poe =
     (if \<not> site_id < length sitecol then Inl IndexError
      else
        (let lon = site_lon (sitecol ! site_id);
             lat = site_lat (sitecol ! site_id)
         in
         case edges5 of (mag_e, dist_e, lon_e, lat_e, eps_e) \<Rightarrow>
           (let disp_name =
                  DISAGG_RES_FMT (case poe of None \<Rightarrow> [] | Some p \<Rightarrow> ''poe-'' @ str_f p @ ''-'')
                    (str_i rlz_id) imt_str (str_f lon) (str_f lat);
                dic = fold (\<lambda>(key, mat). AList.update (join ''_'' key) mat) (zip pmf_keys matrix) [];
                attrs1 =
                  fold (\<lambda>(k, v). AList.update k v)
                    [(''rlzi'', AInt rlz_id),
                     (''imt'', AStr imt_str),
                     (''iml'', AFloat iml),
                     (''trts'', AStrs trt_names),
                     (''mag_bin_edges'', AArray mag_e),
                     (''dist_bin_edges'', AArray dist_e),
                     (''lon_bin_edges'', AArray lon_e),
                     (''lat_bin_edges'', AArray lat_e),
                     (''eps_bin_edges'', AArray eps_e),
                     (''location'', ALoc lon lat)] [];
                attrs2 = (case poe of None \<Rightarrow> attrs1 | Some p \<Rightarrow> AList.update ''poe'' (AFloat p) attrs1);
                attrs3 =
                  AList.update ''poe_agg''
                    (AFloats (map (\<lambda>pmf. 1 - prod_list (map (\<lambda>x. 1 - x) (the (map_of dic pmf))))
                                (sort (map fst dic))))
                    attrs2
            in Inr (AList.update disp_name (dic, attrs3) ds))))"

section \<open>openquake/engine/calculators/base.py: the base calculator\<close>

record 'job calculator =
  job :: 'job
  num_tasks :: "nat option"
  task_args :: "unit list"
  calc_concurrent_tasks :: int
  max_input_weight :: real
  max_output_weight :: real

text \<open>
  The attributes of the class \<^verbatim>\<open>SourceCollector\<close>: one value for the whole process, seen
  by every instance.
\<close>

record class_attrs =
  POINT_SOURCE_WEIGHT :: real

text \<open>
  \<^verbatim>\<open>int(x)\<close> and \<^verbatim>\<open>float(x)\<close> on what \<^verbatim>\<open>config.get\<close> returns: \<^verbatim>\<open>None\<close> raises
  \<^verbatim>\<open>TypeError\<close>, a string that does not parse raises \<^verbatim>\<open>ValueError\<close>. The parsers are
  parameters.
\<close>

definition py_convert :: "(string \<Rightarrow> 'a option) \<Rightarrow> string option \<Rightarrow> error + 'a" where
  "py_convert parse v =
     (case v of
        None \<Rightarrow> Inl TypeError
      | Some s \<Rightarrow> (case parse s of None \<Rightarrow> Inl (ValueError (''invalid literal: '' @ s)) | Some x \<Rightarrow> Inr x))"

text \<open>
  \<^verbatim>\<open>Calculator.__init__\<close>: the outcome, with the class attributes it leaves behind.
\<close>

definition Calculator_init ::
  "(string \<Rightarrow> string \<Rightarrow> string option) \<Rightarrow> (string \<Rightarrow> int option) \<Rightarrow> (string \<Rightarrow> real option) \<Rightarrow> 'job
    \<Rightarrow> class_attrs \<Rightarrow> (error + 'job calculator) \<times> class_attrs" where
  "Calculator_init config_get parse_int parse_float j cls =
     (case py_convert parse_int (config_get ''celery'' ''concurrent_tasks'') of
        Inl e \<Rightarrow> (Inl e, cls)
      | Inr ct \<Rightarrow>
     (case py_convert parse_float (config_get ''hazard'' ''max_input_weight'') of
        Inl e \<Rightarrow> (Inl e, cls)
      | Inr miw \<Rightarrow>
     (case py_convert parse_float (config_get ''hazard'' ''max_output_weight'') of
        Inl e \<Rightarrow> (Inl e, cls)
      | Inr mow \<Rightarrow>
     (case py_convert parse_float (config_get ''hazard'' ''point_source_weight'') of
        Inl e \<Rightarrow> (Inl e, cls)
      | Inr psw \<Rightarrow>
          (Inr \<lparr>job = j, num_tasks = None, task_args = [], calc_concurrent_tasks = ct,
                max_input_weight = miw, max_output_weight = mow\<rparr>,
           cls\<lparr>POINT_SOURCE_WEIGHT := psw\<rparr>)))))"

section \<open>Notions used in the statements\<close>

text \<open>
  The source groups of all source models, and the number of effective source groups,
  as \<open>full_disaggregation\<close> computes them.
\<close>

definition all_src_groups :: "('src, 'bb) disagg_calc \<Rightarrow> 'src src_group list" where
  "all_src_groups self = concat (map src_groups (dc_source_models self))"

definition num_grps :: "('src, 'bb) disagg_calc \<Rightarrow> nat" where
  "num_grps self = length (filter (\<lambda>effrup. effrup > 0) (dc_effrup self))"

text \<open>
  The statements before the loops raise nothing: there is an effective source group, a
  source group to take the magnitudes from, and the magnitude bin width is not zero.
\<close>

definition prelude_ok :: "('src, 'bb) disagg_calc \<Rightarrow> bool" where
  "prelude_ok self =
     (num_grps self \<noteq> 0 \<and> all_src_groups self \<noteq> [] \<and> mag_bin_width (dc_oqparam self) \<noteq> 0)"

text \<open>The hazard curves of all sites, as \<open>full_disaggregation\<close> reads them.\<close>

definition site_curves :: "('src, 'bb) disagg_calc \<Rightarrow> curves list" where
  "site_curves self =
     map (\<lambda>s. fst (get_curves (dc_pgetter self) (dc_oqparam self) (dc_realizations self) (site_sid s)))
       (dc_sitecol self)"

text \<open>
  The sorted region types, the number of blocks, and the bin edges with the log, as
  \<open>full_disaggregation\<close> has them when it enters the loop over the source models.
\<close>

definition trts_of :: "('src, 'bb) disagg_calc \<Rightarrow> string list" where
  "trts_of self = sort (remdups (map sg_trt (all_src_groups self)))"

definition nblocks_of :: "('src, 'bb) disagg_calc \<Rightarrow> int" where
  "nblocks_of self = \<lceil>real (concurrent_tasks (dc_oqparam self)) / real (num_grps self)\<rceil>"

definition built_bin_edges ::
  "('src, 'bb, 'rg, 'cm, 'g) hazardlib \<Rightarrow> ('src, 'bb) disagg_calc
    \<Rightarrow> (nat \<times> bin_edges) list \<times> log_record list" where
  "built_bin_edges H self =
     bin_edges_loop H self
       (mag_edges_of (mag_bin_width (dc_oqparam self))
          (Min (set (map sg_min_mag (all_src_groups self))))
          (Max (set (map sg_max_mag (all_src_groups self)))))
       (linspace (- truncation_level (dc_oqparam self)) (truncation_level (dc_oqparam self))
          (num_epsilon_bins (dc_oqparam self) + 1))
       (length (trts_of self))
       (map site_sid (dc_sitecol self)) []
       (concat (map (\<lambda>s. snd (get_curves (dc_pgetter self) (dc_oqparam self)
                                 (dc_realizations self) (site_sid s)))
                  (dc_sitecol self)))"










section \<open>A worked example\<close>

text \<open>
  Two sites, the second farther than the integration distance from every source (its
  bounding box is empty and its probability maps are empty); one source model with one
  source group of magnitudes between \<open>5.2\<close> and \<open>6.7\<close>; one realization, whose hazard
  curve at the first site has the PoEs \<open>0.3\<close> and \<open>0.05\<close>; the threshold \<open>0.1\<close>.
\<close>

definition ex_oqparam :: oqparam where
  "ex_oqparam =
     \<lparr>truncation_level = 3, num_epsilon_bins = 2, iml_disagg = [],
      imtls = [(''PGA'', [0.1, 0.2])], poes_disagg = [0.1], mag_bin_width = 1,
      distance_bin_width = 10, coordinate_bin_width = 1, concurrent_tasks = 4,
      maximum_distance = 200, investigation_time = 50\<rparr>"

definition ex_hazardlib :: "(nat, bool, unit, unit, unit) hazardlib" where
  "ex_hazardlib =
     \<lparr>bb_bool = (\<lambda>bb. bb),
      bins_edges = (\<lambda>bb dw cw. ([0, 10], [-1, 1], [-1, 1])),
      split_filter = (\<lambda>sitecol d src. [src]),
      get_rlzs_by_gsim = (\<lambda>trt sm_id. ()),
      ContextMaker = (\<lambda>rg d. ()),
      build_ql = (\<lambda>rg imtls poes cs. ([(Some 0.1, (), ''PGA'', 0)], [[0.15, 0.15]])),
      split_in_blocks = (\<lambda>srcs n. [srcs]),
      str_float = (\<lambda>x. if x = 0.5 then ''0.5'' else if x = 0.3 then ''0.3'' else ''0.1''),
      str_int = (\<lambda>n. ''0'')\<rparr>"

definition ex_calc :: "(nat, bool) disagg_calc" where
  "ex_calc =
     \<lparr>dc_oqparam = ex_oqparam,
      dc_sitecol = [\<lparr>site_sid = 0, site_lon = 0, site_lat = 0\<rparr>,
                    \<lparr>site_sid = 1, site_lon = 50, site_lat = 50\<rparr>],
      dc_bb_dict = (\<lambda>sid. sid = 0),
      dc_effrup = [5],
      dc_source_models =
        [\<lparr>sm_ordinal = 0, sm_name = ''b1'',
          src_groups = [\<lparr>sg_trt = ''Active Shallow Crust'', sg_min_mag = 5.2, sg_max_mag = 6.7,
                          sg_sources = [1]\<rparr>]\<rparr>],
      dc_realizations = [0],
      dc_rlzs_by_smodel = (\<lambda>sm_id. [0]),
      dc_pgetter = (\<lambda>sid rlz. if sid = 0 then Pmap (Some (\<lambda>imt. [0.3, 0.05])) else EmptyPmap)\<rparr>"

text \<open>
  The task that the example submits, and bin data for it: one rupture, one quartet, two
  sites.
\<close>

definition ex_bins_data :: bins_data where
  "ex_bins_data =
     \<lparr>bd_mags = [6], bd_dists = [[10, 300]], bd_lons = [[0.1, 0.1]], bd_lats = [[0.1, 0.1]],
      bd_eps = [[[[0.9, 0.95], [1, 1]]]], bd_trts = [0]\<rparr>"

definition ex_task :: "(nat, unit, unit) task" where
  "ex_task =
     \<lparr>t_sitecol = dc_sitecol ex_calc, t_sources = [1], t_cmaker = (),
      t_quartets = [(Some 0.1, (), ''PGA'', 0)], t_imls = [[0.15, 0.15]],
      t_trt_names = [''Active Shallow Crust''],
      t_bin_edges = [(0, ([5, 6, 7], [0, 10], [-1, 1], [-1, 1], [-3, 0, 3]))],
      t_oqparam = ex_oqparam\<rparr>"

text \<open>The same calculation with the threshold \<open>0.5\<close>, above every PoE of the curve.\<close>

definition ex_calc_too_big :: "(nat, bool) disagg_calc" where
  "ex_calc_too_big = ex_calc\<lparr>dc_oqparam := ex_oqparam\<lparr>poes_disagg := [0.5]\<rparr>\<rparr>"

section \<open>The result reducer\<close>
















section \<open>Blocks without contributing ruptures\<close>

text \<open>
  C6. When the collected bin data hold no rupture (the array of magnitudes is empty),
  \<^verbatim>\<open>compute_disagg\<close> returns the empty dictionary and raises nothing.
\<close>

theorem compute_disagg_all_filtered_out:
  assumes "collect_bins_data (map (\<lambda>(i, trt). (trt, i)) (enumerate 0 (t_trt_names t)))
             (t_sources t) (t_sitecol t) (t_cmaker t) (t_quartets t) (t_imls t)
             (truncation_level (t_oqparam t)) (num_epsilon_bins (t_oqparam t)) = Inr bd"
    and "bd_mags bd = []"
  shows "compute_disagg collect_bins_data arr pmf t = Inr []"
  using assms by (simp add: compute_disagg_def)

theorem compute_disagg_all_filtered_out_witness:
  "compute_disagg
     (\<lambda>trt_num srcs sitecol cmaker quartets imls tl n.
        Inr \<lparr>bd_mags = [], bd_dists = [], bd_lons = [], bd_lats = [], bd_eps = [], bd_trts = []\<rparr>)
     (\<lambda>bins edges. Inr ()) [([''Mag''], \<lambda>m. [0])]
     \<lparr>t_sitecol = [\<lparr>site_sid = 0, site_lon = 0, site_lat = 0\<rparr>], t_sources = [1::nat],
        t_cmaker = (), t_quartets = [(Some 0.1, (), ''PGA'', 0)], t_imls = [[0.15]],
        t_trt_names = [''Active Shallow Crust''],
        t_bin_edges = [(0, ([5, 6], [0, 10], [-1, 1], [-1, 1], [-3, 0, 3]))],
        t_oqparam = \<lparr>truncation_level = 3, num_epsilon_bins = 2, iml_disagg = [],
          imtls = [(''PGA'', [0.1, 0.2])], poes_disagg = [0.1], mag_bin_width = 1,
          distance_bin_width = 10, coordinate_bin_width = 1, concurrent_tasks = 4,
          maximum_distance = 200, investigation_time = 50\<rparr>\<rparr> = Inr []"
  by (rule compute_disagg_all_filtered_out [where bd =
        "\<lparr>bd_mags = [], bd_dists = [], bd_lons = [], bd_lats = [], bd_eps = [], bd_trts = []\<rparr>"])
    simp_all

section \<open>Memoization of the arranged arrays\<close>








section \<open>Saving a result\<close>

lemma update_fresh: "k \<notin> fst ` set al \<Longrightarrow> AList.update k v al = al @ [(k, v)]"
  by (induction al) auto

lemma fold_update_fresh:
  assumes "distinct (map fst kvs)" and "fst ` set kvs \<inter> fst ` set al = {}"
  shows "fold (\<lambda>(k, v). AList.update k v) kvs al = al @ kvs"
  using assms
proof (induction kvs arbitrary: al)
  case Nil
  show ?case by simp
next
  case (Cons kv kvs)
  obtain k v where kv: "kv = (k, v)" by (cases kv)
  have fresh: "k \<notin> fst ` set al"
    using Cons.prems(2) kv by auto
  have "fst ` set kvs \<inter> fst ` set (al @ [(k, v)]) = {}"
    using Cons.prems kv by auto
  moreover have "distinct (map fst kvs)"
    using Cons.prems(1) by simp
  ultimately have "fold (\<lambda>(k, v). AList.update k v) kvs (al @ [(k, v)]) = (al @ [(k, v)]) @ kvs"
    by (rule Cons.IH [rotated])
  then show ?case
    using kv fresh by (simp add: update_fresh)
qed

lemma dic_zip:
  assumes "distinct (map (join ''_'') pmf_keys)" and "length matrix = length pmf_keys"
  shows "fold (\<lambda>(key, mat). AList.update (join ''_'' key) mat) (zip pmf_keys matrix) []
           = zip (map (join ''_'') pmf_keys) matrix"
proof -
  have "fold (\<lambda>(key, mat). AList.update (join ''_'' key) mat) (zip pmf_keys matrix) []
      = fold (\<lambda>(k, v). AList.update k v) (zip (map (join ''_'') pmf_keys) matrix) []"
    by (simp add: zip_map1 fold_map comp_def case_prod_unfold)
  also have "\<dots> = [] @ zip (map (join ''_'') pmf_keys) matrix"
    using assms by (intro fold_update_fresh) simp_all
  finally show ?thesis by simp
qed

lemma attrs1_eval:
  "fold (\<lambda>(k, v). AList.update k v)
     [(''rlzi'', a1), (''imt'', a2), (''iml'', a3), (''trts'', a4), (''mag_bin_edges'', a5),
      (''dist_bin_edges'', a6), (''lon_bin_edges'', a7), (''lat_bin_edges'', a8),
      (''eps_bin_edges'', a9), (''location'', a10)] []
   = [(''rlzi'', a1), (''imt'', a2), (''iml'', a3), (''trts'', a4), (''mag_bin_edges'', a5),
      (''dist_bin_edges'', a6), (''lon_bin_edges'', a7), (''lat_bin_edges'', a8),
      (''eps_bin_edges'', a9), (''location'', a10)]"
  by (intro fold_update_fresh [where al = "[]", simplified]) simp


lemma map_insort_key: "map f (insort_key f x ys) = insort (f x) (map f ys)"
  by (induction ys) simp_all

lemma map_sort_key: "map f (sort_key f xs) = sort (map f xs)"
  by (induction xs) (simp_all add: map_insort_key)

lemma map_of_sorted_items:
  assumes "distinct (map fst al)"
  shows "map (\<lambda>k. f (the (map_of al k))) (sort (map fst al)) = map (\<lambda>(k, v). f v) (sort_key fst al)"
proof -
  have "sort (map fst al) = map fst (sort_key fst al)"
    by (simp add: map_sort_key)
  moreover have "f (the (map_of al (fst kv))) = f (snd kv)" if "kv \<in> set (sort_key fst al)" for kv
  proof -
    have "(fst kv, snd kv) \<in> set al"
      using that by simp
    then have "map_of al (fst kv) = Some (snd kv)"
      using assms by (rule map_of_is_SomeI [rotated])
    then show ?thesis by simp
  qed
  ultimately show ?thesis
    by (simp add: case_prod_unfold)
qed

text \<open>
  C8. For a site of the collection and a matrix with one array per PMF view (the joined
  view names being distinct), \<^verbatim>\<open>save_disagg_result\<close> stores under the display name one
  named array per view and exactly these attributes, in this order: the realization, the
  intensity measure type, the level, the region types, the five sequences of bin edges,
  the location, the threshold when and only when it is not \<^verbatim>\<open>None\<close>, and the list
  \<^verbatim>\<open>poe_agg\<close>, which holds for the views in sorted order of name one minus the product of
  one minus each cell.
\<close>

theorem save_disagg_result_attrs:
  assumes "site_id < length sitecol"
    and "length matrix = length pmf_keys"
    and "distinct (map (join ''_'') pmf_keys)"
  shows "save_disagg_result str_f str_i pmf_keys sitecol ds site_id
           (mag_e, dist_e, lon_e, lat_e, eps_e) trt_names matrix rlz_id inv_time imt_str iml poe =
     Inr (AList.update
       (DISAGG_RES_FMT (case poe of None \<Rightarrow> [] | Some p \<Rightarrow> ''poe-'' @ str_f p @ ''-'')
          (str_i rlz_id) imt_str (str_f (site_lon (sitecol ! site_id)))
          (str_f (site_lat (sitecol ! site_id))))
       (zip (map (join ''_'') pmf_keys) matrix,
        [(''rlzi'', AInt rlz_id),
         (''imt'', AStr imt_str),
         (''iml'', AFloat iml),
         (''trts'', AStrs trt_names),
         (''mag_bin_edges'', AArray mag_e),
         (''dist_bin_edges'', AArray dist_e),
         (''lon_bin_edges'', AArray lon_e),
         (''lat_bin_edges'', AArray lat_e),
         (''eps_bin_edges'', AArray eps_e),
         (''location'', ALoc (site_lon (sitecol ! site_id)) (site_lat (sitecol ! site_id)))]
        @ (case poe of None \<Rightarrow> [] | Some p \<Rightarrow> [(''poe'', AFloat p)])
        @ [(''poe_agg'',
            AFloats (map (\<lambda>(view, cells). 1 - prod_list (map (\<lambda>x. 1 - x) cells))
                       (sort_key fst (zip (map (join ''_'') pmf_keys) matrix))))])
       ds)"
proof -
  let ?dic = "zip (map (join ''_'') pmf_keys) matrix"
  have d: "distinct (map fst ?dic)"
    using assms(2,3) by simp
  have agg: "map (\<lambda>pmf. 1 - prod_list (map (\<lambda>x. 1 - x) (the (map_of ?dic pmf)))) (sort (map fst ?dic))
      = map (\<lambda>(view, cells). 1 - prod_list (map (\<lambda>x. 1 - x) cells)) (sort_key fst ?dic)"
    using map_of_sorted_items [OF d, of "\<lambda>cells. 1 - prod_list (map (\<lambda>x. 1 - x) cells)"] .
  have nop: "AList.update ''poe'' v
       [(''rlzi'', a1), (''imt'', a2), (''iml'', a3), (''trts'', a4), (''mag_bin_edges'', a5),
        (''dist_bin_edges'', a6), (''lon_bin_edges'', a7), (''lat_bin_edges'', a8),
        (''eps_bin_edges'', a9), (''location'', a10)]
     = [(''rlzi'', a1), (''imt'', a2), (''iml'', a3), (''trts'', a4), (''mag_bin_edges'', a5),
        (''dist_bin_edges'', a6), (''lon_bin_edges'', a7), (''lat_bin_edges'', a8),
        (''eps_bin_edges'', a9), (''location'', a10), (''poe'', v)]"
    for v a1 a2 a3 a4 a5 a6 a7 a8 a9 a10 :: attr_value
    by simp
  have agg1: "AList.update ''poe_agg'' v
       [(''rlzi'', a1), (''imt'', a2), (''iml'', a3), (''trts'', a4), (''mag_bin_edges'', a5),
        (''dist_bin_edges'', a6), (''lon_bin_edges'', a7), (''lat_bin_edges'', a8),
        (''eps_bin_edges'', a9), (''location'', a10)]
     = [(''rlzi'', a1), (''imt'', a2), (''iml'', a3), (''trts'', a4), (''mag_bin_edges'', a5),
        (''dist_bin_edges'', a6), (''lon_bin_edges'', a7), (''lat_bin_edges'', a8),
        (''eps_bin_edges'', a9), (''location'', a10), (''poe_agg'', v)]"
    for v a1 a2 a3 a4 a5 a6 a7 a8 a9 a10 :: attr_value
    by simp
  have agg2: "AList.update ''poe_agg'' v
       [(''rlzi'', a1), (''imt'', a2), (''iml'', a3), (''trts'', a4), (''mag_bin_edges'', a5),
        (''dist_bin_edges'', a6), (''lon_bin_edges'', a7), (''lat_bin_edges'', a8),
        (''eps_bin_edges'', a9), (''location'', a10), (''poe'', a11)]
     = [(''rlzi'', a1), (''imt'', a2), (''iml'', a3), (''trts'', a4), (''mag_bin_edges'', a5),
        (''dist_bin_edges'', a6), (''lon_bin_edges'', a7), (''lat_bin_edges'', a8),
        (''eps_bin_edges'', a9), (''location'', a10), (''poe'', a11), (''poe_agg'', v)]"
    for v a1 a2 a3 a4 a5 a6 a7 a8 a9 a10 a11 :: attr_value
    by simp
  show ?thesis
  proof (cases poe)
    case None
    show ?thesis
      unfolding save_disagg_result_def Let_def dic_zip [OF assms(3,2)] attrs1_eval agg None
      using assms(1) by (simp only: agg1 option.case prod.case if_False not_True_eq_False append.simps)
  next
    case (Some p)
    show ?thesis
      unfolding save_disagg_result_def Let_def dic_zip [OF assms(3,2)] attrs1_eval agg Some
      using assms(1) by (simp only: nop agg2 option.case prod.case if_False not_True_eq_False append.simps)
  qed
qed


theorem save_disagg_result_attrs_witness:
  "(0::nat) < length [\<lparr>site_sid = 0, site_lon = 0.1, site_lat = 0.1\<rparr>]
   \<and> length [[0.1, 0.2], [0.3], [0.5, 0.5::real]] = length [[''Mag''], [''Dist''], [''Mag'', ''Dist'']]
   \<and> distinct (map (join ''_'') [[''Mag''], [''Dist''], [''Mag'', ''Dist'']])
   \<and> save_disagg_result (\<lambda>r. ''0.1'') (\<lambda>n. ''0'') [[''Mag''], [''Dist''], [''Mag'', ''Dist'']]
       [\<lparr>site_sid = 0, site_lon = 0.1, site_lat = 0.1\<rparr>] [] 0
       ([5, 6], [0, 10], [-1, 1], [-1, 1], [-3, 3]) [''Active Shallow Crust'']
       [[0.1, 0.2], [0.3], [0.5, 0.5]] 0 50 ''PGA'' 0.2 (Some 0.1)
     = Inr [(''disagg/poe-0.1-rlz-0-PGA-0.1-0.1'',
             ([(''Mag'', [0.1, 0.2]), (''Dist'', [0.3]), (''Mag_Dist'', [0.5, 0.5])],
              [(''rlzi'', AInt 0), (''imt'', AStr ''PGA''), (''iml'', AFloat 0.2),
               (''trts'', AStrs [''Active Shallow Crust'']),
               (''mag_bin_edges'', AArray [5, 6]), (''dist_bin_edges'', AArray [0, 10]),
               (''lon_bin_edges'', AArray [-1, 1]), (''lat_bin_edges'', AArray [-1, 1]),
               (''eps_bin_edges'', AArray [-3, 3]), (''location'', ALoc 0.1 0.1),
               (''poe'', AFloat 0.1), (''poe_agg'', AFloats [0.3, 0.28, 0.75])]))]"
proof -
  have s: "sort_key fst [(''Mag'', [0.1, 0.2::real]), (''Dist'', [0.3]), (''Mag_Dist'', [0.5, 0.5])]
      = [(''Dist'', [0.3]), (''Mag'', [0.1, 0.2]), (''Mag_Dist'', [0.5, 0.5])]"
    by (simp add: less_eq_char_def less_char_def)
  have d: "distinct (map (join ''_'') [[''Mag''], [''Dist''], [''Mag'', ''Dist'']])"
    by simp
  show ?thesis
    using d save_disagg_result_attrs [where site_id = 0
        and sitecol = "[\<lparr>site_sid = 0, site_lon = 0.1, site_lat = 0.1\<rparr>]"
        and matrix = "[[0.1, 0.2], [0.3], [0.5, 0.5]]"
        and pmf_keys = "[[''Mag''], [''Dist''], [''Mag'', ''Dist'']]"
        and str_f = "\<lambda>r. ''0.1''" and str_i = "\<lambda>n. ''0''" and ds = "[]"
        and mag_e = "[5, 6]" and dist_e = "[0, 10]" and lon_e = "[-1, 1]" and lat_e = "[-1, 1]"
        and eps_e = "[-3, 3]" and trt_names = "[''Active Shallow Crust'']" and rlz_id = 0
        and inv_time = 50 and imt_str = "''PGA''" and iml = "0.2" and poe = "Some 0.1"]
    by (simp add: s DISAGG_RES_FMT_def)
qed


section \<open>The class-wide source weight\<close>

text \<open>
  C9, as the code has it. When the four configuration values are present and parse,
  constructing a calculator stores three of them on the instance and assigns the fourth,
  \<^verbatim>\<open>point_source_weight\<close>, to the class attribute \<^verbatim>\<open>SourceCollector.POINT_SOURCE_WEIGHT\<close>,
  whatever its value was; the instance holds no weighting value. When construction
  raises, the class attribute is left as it was.
\<close>

theorem Calculator_init_sets_class_weight:
  "(config_get ''celery'' ''concurrent_tasks'' = Some s1 \<and> parse_int s1 = Some ct \<and>
    config_get ''hazard'' ''max_input_weight'' = Some s2 \<and> parse_float s2 = Some miw \<and>
    config_get ''hazard'' ''max_output_weight'' = Some s3 \<and> parse_float s3 = Some mow \<and>
    config_get ''hazard'' ''point_source_weight'' = Some s4 \<and> parse_float s4 = Some psw \<longrightarrow>
      Calculator_init config_get parse_int parse_float j cls =
        (Inr \<lparr>job = j, num_tasks = None, task_args = [], calc_concurrent_tasks = ct,
              max_input_weight = miw, max_output_weight = mow\<rparr>,
         cls\<lparr>POINT_SOURCE_WEIGHT := psw\<rparr>))
   \<and> (fst (Calculator_init config_get parse_int parse_float j cls) = Inl e \<longrightarrow>
        snd (Calculator_init config_get parse_int parse_float j cls) = cls)"
  by (auto simp: Calculator_init_def py_convert_def split: sum.splits option.splits)

theorem Calculator_init_sets_class_weight_witness:
  "Calculator_init (\<lambda>sec k. if k = ''point_source_weight'' then Some ''2'' else Some ''1'')
      (\<lambda>s. if s = ''1'' then Some 1 else None)
      (\<lambda>s. if s = ''1'' then Some 1 else if s = ''2'' then Some 2 else None)
      () \<lparr>POINT_SOURCE_WEIGHT = 1\<rparr>
     = (Inr \<lparr>job = (), num_tasks = None, task_args = [], calc_concurrent_tasks = 1,
            max_input_weight = 1, max_output_weight = 1\<rparr>, \<lparr>POINT_SOURCE_WEIGHT = 2\<rparr>)
   \<and> fst (Calculator_init (\<lambda>sec k. None) (\<lambda>s. Some 1) (\<lambda>s. Some 1) ()
        \<lparr>POINT_SOURCE_WEIGHT = 1\<rparr>) = Inl TypeError
   \<and> snd (Calculator_init (\<lambda>sec k. None) (\<lambda>s. Some 1) (\<lambda>s. Some 1) ()
        \<lparr>POINT_SOURCE_WEIGHT = 1\<rparr>) = \<lparr>POINT_SOURCE_WEIGHT = 1\<rparr>"
proof -
  note t = Calculator_init_sets_class_weight
    [where config_get = "\<lambda>sec k. if k = ''point_source_weight'' then Some ''2'' else Some ''1''"
      and parse_int = "\<lambda>s. if s = ''1'' then Some 1 else None"
      and parse_float = "\<lambda>s. if s = ''1'' then Some 1 else if s = ''2'' then Some 2 else None"
      and ?s1.0 = "''1''" and ?s2.0 = "''1''" and ?s3.0 = "''1''" and ?s4.0 = "''2''"
      and ct = 1 and miw = 1 and mow = 1 and psw = 2 and j = "()"
      and cls = "\<lparr>POINT_SOURCE_WEIGHT = 1\<rparr>", THEN conjunct1]
  note u = Calculator_init_sets_class_weight
    [where config_get = "\<lambda>sec k. None" and parse_int = "\<lambda>s. Some 1"
      and parse_float = "\<lambda>s. Some 1" and j = "()" and e = TypeError
      and cls = "\<lparr>POINT_SOURCE_WEIGHT = 1\<rparr>", THEN conjunct2]
  have e: "fst (Calculator_init (\<lambda>sec k. None) (\<lambda>s. Some 1) (\<lambda>s. Some 1) ()
        \<lparr>POINT_SOURCE_WEIGHT = 1\<rparr>) = Inl TypeError"
    by (simp add: Calculator_init_def py_convert_def)
  show ?thesis
    using t u e by simp
qed

text \<open>
  The claim as the spec words it fails: constructing a calculator changes the class
  attribute from \<open>1\<close> to the configured \<open>2\<close>.
\<close>

theorem Calculator_init_mutates_class_counterexample:
  "snd (Calculator_init (\<lambda>sec k. if k = ''point_source_weight'' then Some ''2'' else Some ''1'')
      (\<lambda>s. if s = ''1'' then Some 1 else None)
      (\<lambda>s. if s = ''1'' then Some 1 else if s = ''2'' then Some 2 else None)
      () \<lparr>POINT_SOURCE_WEIGHT = 1\<rparr>) \<noteq> \<lparr>POINT_SOURCE_WEIGHT = 1\<rparr>"
  by (simp add: Calculator_init_def py_convert_def)

section \<open>The bin edges\<close>

lemma bin_edges_loop_map_of:
  "map_of (fst (bin_edges_loop H self me ee n sids be lg)) sid =
     (if sid \<in> set sids \<and> bb_bool H (dc_bb_dict self sid) then
        (case bins_edges H (dc_bb_dict self sid) (distance_bin_width (dc_oqparam self))
                (coordinate_bin_width (dc_oqparam self)) of
           (d, lo, la) \<Rightarrow> Some (me, d, lo, la, ee))
      else map_of be sid)"
proof (induction sids arbitrary: be lg)
  case Nil
  show ?case by simp
next
  case (Cons x sids)
  show ?case
  proof (cases "bb_bool H (dc_bb_dict self x)")
    case False
    then show ?thesis
      using Cons.IH by (auto simp: Let_def)
  next
    case True
    obtain d lo la where e: "bins_edges H (dc_bb_dict self x) (distance_bin_width (dc_oqparam self))
        (coordinate_bin_width (dc_oqparam self)) = (d, lo, la)"
      by (cases "bins_edges H (dc_bb_dict self x) (distance_bin_width (dc_oqparam self))
        (coordinate_bin_width (dc_oqparam self))")
    show ?thesis
      using True e Cons.IH [where be = "AList.update x (me, d, lo, la, ee) be"]
      by (auto simp: Let_def update_conv')
  qed
qed

lemma bin_edges_loop_log_mono:
  "set lg \<subseteq> set (snd (bin_edges_loop H self me ee n sids be lg))"
proof (induction sids arbitrary: be lg)
  case Nil
  show ?case by simp
next
  case (Cons x sids)
  show ?case
  proof (cases "bb_bool H (dc_bb_dict self x)")
    case False
    then show ?thesis
      using Cons.IH [where lg = "lg @ [(''site %d was too far, skipping disaggregation'', [LInt x])]"
          and be = be]
      by (auto simp: Let_def)
  next
    case True
    obtain d lo la where e: "bins_edges H (dc_bb_dict self x) (distance_bin_width (dc_oqparam self))
        (coordinate_bin_width (dc_oqparam self)) = (d, lo, la)"
      by (cases "bins_edges H (dc_bb_dict self x) (distance_bin_width (dc_oqparam self))
        (coordinate_bin_width (dc_oqparam self))")
    show ?thesis
      using True e
        Cons.IH [where be = "AList.update x (me, d, lo, la, ee) be"
          and lg = "lg @ [(''bins %s for sid %d'',
                       [LShape (map (\<lambda>edges. int (length edges) - 1) [me, d, lo, la, ee] @ [int n]),
                        LInt x])]"]
      by (auto simp: Let_def)
  qed
qed

lemma bin_edges_loop_logs_far:
  assumes "sid \<in> set sids" and "\<not> bb_bool H (dc_bb_dict self sid)"
  shows "(''site %d was too far, skipping disaggregation'', [LInt sid])
           \<in> set (snd (bin_edges_loop H self me ee n sids be lg))"
  using assms
proof (induction sids arbitrary: be lg)
  case Nil
  then show ?case by simp
next
  case (Cons x sids)
  show ?case
  proof (cases "x = sid")
    case True
    then show ?thesis
      using Cons.prems(2)
        bin_edges_loop_log_mono [of "lg @ [(''site %d was too far, skipping disaggregation'', [LInt sid])]"
          H self me ee n sids be]
      by (simp add: Let_def)
  next
    case False
    then have "sid \<in> set sids" using Cons.prems(1) by simp
    then show ?thesis
      using Cons.IH Cons.prems(2) by (simp add: Let_def split: prod.splits)
  qed
qed


lemma py_min_Min:
  assumes "xs \<noteq> []"
  shows "py_min xs = Inr (Min (set xs))"
proof (cases xs)
  case Nil
  then show ?thesis using assms by simp
next
  case (Cons a list)
  have "fold min list a = Min (set (a # list))"
    by (simp only: Min.set_eq_fold)
  then show ?thesis using Cons by (simp add: py_min_def)
qed

lemma py_max_Max:
  assumes "xs \<noteq> []"
  shows "py_max xs = Inr (Max (set xs))"
proof (cases xs)
  case Nil
  then show ?thesis using assms by simp
next
  case (Cons a list)
  have "fold max list a = Max (set (a # list))"
    by (simp only: Max.set_eq_fold)
  then show ?thesis using Cons by (simp add: py_max_def)
qed

lemma py_min_Nil: "py_min [] = Inl (ValueError ''min() arg is an empty sequence'')"
  by (simp add: py_min_def)

text \<open>The dictionary \<^verbatim>\<open>self.bin_edges\<close> that \<open>full_disaggregation\<close> leaves behind.\<close>

lemma full_disaggregation_bin_edges:
  "self_bin_edges (snd (full_disaggregation H self)) =
     (if prelude_ok self then
        fst (bin_edges_loop H self
               (mag_edges_of (mag_bin_width (dc_oqparam self))
                  (Min (set (map sg_min_mag (all_src_groups self))))
                  (Max (set (map sg_max_mag (all_src_groups self)))))
               (linspace (- truncation_level (dc_oqparam self)) (truncation_level (dc_oqparam self))
                  (num_epsilon_bins (dc_oqparam self) + 1))
               (length (sort (remdups (map sg_trt (all_src_groups self)))))
               (map site_sid (dc_sitecol self)) []
               (concat (map (\<lambda>sid. snd (get_curves (dc_pgetter self) (dc_oqparam self)
                                             (dc_realizations self) sid))
                          (map site_sid (dc_sitecol self)))))
      else [])"
proof (cases "prelude_ok self")
  case False
  show ?thesis
  proof (cases "length (filter (\<lambda>effrup. effrup > 0) (dc_effrup self)) = 0")
    case True
    then show ?thesis
      using False by (simp add: full_disaggregation_def Let_def)
  next
    case g: False
    show ?thesis
    proof (cases "concat (map src_groups (dc_source_models self)) = []")
      case True
      have e: "py_min (map sg_min_mag (concat (map src_groups (dc_source_models self))))
           = Inl (ValueError ''min() arg is an empty sequence'')"
        by (simp only: True list.map py_min_Nil)
      show ?thesis
        using False g
        unfolding full_disaggregation_def Let_def e
        by simp
    next
      case sg: False
      then have w: "mag_bin_width (dc_oqparam self) = 0"
        using False g by (simp add: prelude_ok_def num_grps_def all_src_groups_def)
      have mn: "py_min (map sg_min_mag (concat (map src_groups (dc_source_models self))))
           = Inr (Min (set (map sg_min_mag (concat (map src_groups (dc_source_models self))))))"
        using sg by (intro py_min_Min) simp
      have mx: "py_max (map sg_max_mag (concat (map src_groups (dc_source_models self))))
           = Inr (Max (set (map sg_max_mag (concat (map src_groups (dc_source_models self))))))"
        using sg by (intro py_max_Max) simp
      show ?thesis
        using False g w
        unfolding full_disaggregation_def Let_def mn mx
        by simp
    qed
  qed
next
  case True
  then have g: "length (filter (\<lambda>effrup. effrup > 0) (dc_effrup self)) \<noteq> 0"
    and sg: "concat (map src_groups (dc_source_models self)) \<noteq> []"
    and w: "mag_bin_width (dc_oqparam self) \<noteq> 0"
    by (simp_all add: prelude_ok_def num_grps_def all_src_groups_def)
  have mn: "py_min (map sg_min_mag (concat (map src_groups (dc_source_models self))))
       = Inr (Min (set (map sg_min_mag (concat (map src_groups (dc_source_models self))))))"
    using sg by (intro py_min_Min) simp
  have mx: "py_max (map sg_max_mag (concat (map src_groups (dc_source_models self))))
       = Inr (Max (set (map sg_max_mag (concat (map src_groups (dc_source_models self))))))"
    using sg by (intro py_max_Max) simp
  show ?thesis
    using True g w
    unfolding full_disaggregation_def Let_def mn mx all_src_groups_def
    by (simp add: comp_def split: prod.splits option.splits)
qed









section \<open>The worked example, evaluated\<close>

lemma ex_run: "full_disaggregation ex_hazardlib ex_calc =
  (None,
   \<lparr>self_bin_edges = [(0, ([5, 6, 7], [0, 10], [-1, 1], [-1, 1], [-3, 0, 3]))],
    logged =
      [(''hazard curve contains all zero probabilities; skipping site %d, rlz=%d'', [LInt 1, LInt 0]),
       (''bins %s for sid %d'', [LShape [2, 1, 1, 1, 2, 1], LInt 0]),
       (''site %d was too far, skipping disaggregation'', [LInt 1])],
    submitted = [ex_task]\<rparr>)"
  by (simp add: full_disaggregation_def ex_calc_def ex_oqparam_def ex_hazardlib_def Let_def
     get_curves_def py_min_def py_max_def mag_edges_of_def arange_def linspace_def upt_rec ex_task_def)

lemma ex_compute: "compute_disagg (\<lambda>trt_num srcs sitecol cmaker quartets imls tl n. Inr ex_bins_data)
     (\<lambda>bins edges. Inr (fst bins)) [([''Mag''], \<lambda>m. m)] ex_task
   = Inr [((0, 0, Some 0.1, ''PGA'', 0.15, [''Active Shallow Crust'']), [[6]])]"
  by (simp add: compute_disagg_def ex_task_def ex_bins_data_def ex_calc_def ex_oqparam_def
      column_def disagg_result_def Let_def)

section \<open>Sites out of range\<close>

lemma quartet_loop_keys:
  assumes "quartet_loop arr pmf t bd i sid edges qs cache mon result = Inr (result', mon')"
  shows "fst ` fst ` set result' \<subseteq> insert sid (fst ` fst ` set result)"
  using assms
proof (induction qs arbitrary: cache mon result)
  case Nil
  then show ?case by auto
next
  case (Cons qp qs)
  obtain q pnes where qp: "qp = (q, pnes)" by (cases qp)
  from Cons.prems obtain k r cache1 mon1 where
    step: "quartet_loop arr pmf t bd i sid edges qs cache1 mon1 (AList.update k r result)
             = Inr (result', mon')"
    and k: "fst k = sid"
    unfolding qp
    by (auto split: if_splits sum.splits prod.splits option.splits)
  have "fst ` fst ` set result' \<subseteq> insert sid (fst ` fst ` set (AList.update k r result))"
    by (rule Cons.IH [OF step])
  also have "fst ` set (AList.update k r result) = {k} \<union> fst ` set result"
    by (rule dom_update)
  finally show ?case
    using k by auto
qed

lemma site_loop_skip:
  assumes "map_of (t_bin_edges t) (site_sid s) = None"
  shows "site_loop arr pmf t bd ((i, s) # rest) mon result = site_loop arr pmf t bd rest mon result"
  using assms by simp

lemma site_loop_keys:
  assumes "site_loop arr pmf t bd sites mon result = Inr (result', mon')"
    and "sid \<in> fst ` fst ` set result'"
  shows "sid \<in> fst ` fst ` set result \<or> map_of (t_bin_edges t) sid \<noteq> None"
  using assms
proof (induction sites arbitrary: mon result)
  case Nil
  then show ?case by simp
next
  case (Cons p sites)
  obtain i s where p: "p = (i, s)" by (cases p)
  show ?case
  proof (cases "map_of (t_bin_edges t) (site_sid s)")
    case None
    then show ?thesis
      using Cons.prems Cons.IH p by simp
  next
    case (Some be)
    from Cons.prems(1) obtain result1 mon1 where
      q: "quartet_loop arr pmf t bd i (site_sid s) (be, t_trt_names t)
            (enumerate 0 (transpose (bd_eps bd))) Map.empty mon result = Inr (result1, mon1)"
      and rest: "site_loop arr pmf t bd sites mon1 result1 = Inr (result', mon')"
      unfolding p using Some
      by (auto split: sum.splits prod.splits)
    have a: "sid \<in> fst ` fst ` set result1 \<or> map_of (t_bin_edges t) sid \<noteq> None"
      using Cons.IH [OF rest Cons.prems(2)] .
    have b: "fst ` fst ` set result1 \<subseteq> insert (site_sid s) (fst ` fst ` set result)"
      using quartet_loop_keys [OF q] .
    show ?thesis
    proof (cases "sid \<in> fst ` fst ` set result1")
      case False
      then show ?thesis using a by simp
    next
      case True
      then have "sid = site_sid s \<or> sid \<in> fst ` fst ` set result"
        using b by blast
      then show ?thesis
        using Some by (metis option.distinct(1))
    qed
  qed
qed

lemma compute_disagg_keys:
  assumes "compute_disagg collect arr pmf t = Inr result"
    and "map_of (t_bin_edges t) sid = None"
  shows "sid \<notin> fst ` fst ` set result"
proof
  assume in_res: "sid \<in> fst ` fst ` set result"
  then have ne: "result \<noteq> []" by auto
  from assms(1) ne obtain bd mon where
    "site_loop arr pmf t bd (enumerate 0 (t_sitecol t)) 0 [] = Inr (result, mon)"
    by (auto simp: compute_disagg_def Let_def split: sum.splits if_splits prod.splits)
  from site_loop_keys [OF this in_res] assms(2) show False
    by simp
qed

lemma full_disaggregation_prelude_ok:
  assumes "prelude_ok self"
  shows "full_disaggregation H self =
     (case smodel_loop H self (nblocks_of self) (site_curves self) (trts_of self)
             (fst (built_bin_edges H self)) (dc_source_models self) (\<lambda>_. 0) []
             (snd (built_bin_edges H self)) of
        (Some e, all_args, lg2) \<Rightarrow>
          (Some e, \<lparr>self_bin_edges = fst (built_bin_edges H self), logged = lg2, submitted = []\<rparr>)
      | (None, all_args, lg2) \<Rightarrow>
          (None, \<lparr>self_bin_edges = fst (built_bin_edges H self), logged = lg2,
                  submitted = all_args\<rparr>))"
proof -
  from assms have g: "length (filter (\<lambda>effrup. effrup > 0) (dc_effrup self)) \<noteq> 0"
    and sg: "concat (map src_groups (dc_source_models self)) \<noteq> []"
    and w: "mag_bin_width (dc_oqparam self) \<noteq> 0"
    by (simp_all add: prelude_ok_def num_grps_def all_src_groups_def)
  have mn: "py_min (map sg_min_mag (concat (map src_groups (dc_source_models self))))
       = Inr (Min (set (map sg_min_mag (concat (map src_groups (dc_source_models self))))))"
    using sg by (intro py_min_Min) simp
  have mx: "py_max (map sg_max_mag (concat (map src_groups (dc_source_models self))))
       = Inr (Max (set (map sg_max_mag (concat (map src_groups (dc_source_models self))))))"
    using sg by (intro py_max_Max) simp
  have cs: "map fst (map (get_curves (dc_pgetter self) (dc_oqparam self) (dc_realizations self))
                      (map site_sid (dc_sitecol self))) = site_curves self"
    by (simp add: site_curves_def comp_def)
  have lg: "concat (map snd (map (get_curves (dc_pgetter self) (dc_oqparam self) (dc_realizations self))
                      (map site_sid (dc_sitecol self))))
          = concat (map (\<lambda>s. snd (get_curves (dc_pgetter self) (dc_oqparam self)
                                 (dc_realizations self) (site_sid s))) (dc_sitecol self))"
    by (simp add: comp_def)
  show ?thesis
    using g w
    unfolding full_disaggregation_def Let_def mn mx cs lg
    by (simp add: built_bin_edges_def trts_of_def nblocks_of_def num_grps_def all_src_groups_def
        split: prod.splits option.splits)
qed


lemma site_poe_loop_log_mono:
  "set lg \<subseteq> set (snd (snd (site_poe_loop H self R imts scs mp lg)))"
proof (induction scs arbitrary: mp lg)
  case Nil
  show ?case by simp
next
  case (Cons p scs)
  obtain s curve where p: "p = (s, curve)" by (cases p)
  show ?case
  proof (cases "populate_curve R imts curve mp")
    case (Inl e)
    then show ?thesis by (simp add: p)
  next
    case (Inr mp')
    have a: "set lg \<subseteq> set (snd (snd (site_poe_loop H self R imts scs mp' lg)))"
      by (rule Cons.IH)
    have b: "set lg \<subseteq> set (snd (snd (site_poe_loop H self R imts scs mp'
               (lg @ [(''location %s was too far, skipping disaggregation'',
                       [LLoc (site_lon s) (site_lat s)])]))))"
      using Cons.IH [where lg = "lg @ [(''location %s was too far, skipping disaggregation'',
                       [LLoc (site_lon s) (site_lat s)])]" and mp = mp']
      by simp
    show ?thesis
      using a b by (simp add: p Inr)
  qed
qed

lemma smodel_loop_log_mono:
  "set lg \<subseteq> set (snd (snd (smodel_loop H self nb cs trts be sms mp args lg)))"
proof (induction sms arbitrary: mp args lg)
  case Nil
  show ?case by simp
next
  case (Cons sm sms)
  obtain e mp' lg' where sp: "site_poe_loop H self (length (dc_realizations self))
      (map fst (imtls (dc_oqparam self))) (zip (dc_sitecol self) cs) mp lg = (e, mp', lg')"
    by (cases "site_poe_loop H self (length (dc_realizations self))
      (map fst (imtls (dc_oqparam self))) (zip (dc_sitecol self) cs) mp lg") auto
  have l: "set lg \<subseteq> set lg'"
    using site_poe_loop_log_mono [of lg H self "length (dc_realizations self)"
        "map fst (imtls (dc_oqparam self))" "zip (dc_sitecol self) cs" mp] sp
    by simp
  show ?case
  proof (cases e)
    case (Some err)
    then show ?thesis using sp l by (simp add: Let_def)
  next
    case None
    have "set lg' \<subseteq> set (snd (snd (smodel_loop H self nb cs trts be sms mp'
             (src_group_loop H self nb cs trts be (sm_ordinal sm) (src_groups sm) args) lg')))"
      by (rule Cons.IH)
    then show ?thesis
      using sp l None by (auto simp: Let_def split: option.splits)
  qed
qed

lemma src_group_loop_bin_edges:
  assumes "t \<in> set (src_group_loop H self nb cs trts be sm_id sgs args)"
  shows "t \<in> set args \<or> t_bin_edges t = be"
  using assms
proof (induction sgs arbitrary: args)
  case Nil
  then show ?case by simp
next
  case (Cons sg sgs)
  show ?case
  proof (cases "concat (map (split_filter H (dc_sitecol self) (maximum_distance (dc_oqparam self)))
                  (sg_sources sg)) = []")
    case True
    have "src_group_loop H self nb cs trts be sm_id (sg # sgs) args
        = src_group_loop H self nb cs trts be sm_id sgs args"
      unfolding src_group_loop.simps Let_def by (simp only: True if_True simp_thms)
    then show ?thesis
      using Cons.prems Cons.IH by simp
  next
    case False
    obtain quartets levels where ql: "build_ql H (get_rlzs_by_gsim H (sg_trt sg) sm_id)
        (imtls (dc_oqparam self)) (poes_disagg (dc_oqparam self)) cs = (quartets, levels)"
      by (cases "build_ql H (get_rlzs_by_gsim H (sg_trt sg) sm_id)
        (imtls (dc_oqparam self)) (poes_disagg (dc_oqparam self)) cs")
    have "src_group_loop H self nb cs trts be sm_id (sg # sgs) args
        = src_group_loop H self nb cs trts be sm_id sgs
            (args @ map (\<lambda>srcs. \<lparr>t_sitecol = dc_sitecol self, t_sources = srcs,
                 t_cmaker = ContextMaker H (get_rlzs_by_gsim H (sg_trt sg) sm_id)
                              (maximum_distance (dc_oqparam self)),
                 t_quartets = quartets, t_imls = levels, t_trt_names = trts,
                 t_bin_edges = be, t_oqparam = dc_oqparam self\<rparr>)
               (split_in_blocks H (concat (map (split_filter H (dc_sitecol self)
                  (maximum_distance (dc_oqparam self))) (sg_sources sg))) nb))"
      unfolding src_group_loop.simps Let_def by (simp only: False if_False ql prod.case)
    with Cons.prems
    have "t \<in> set (src_group_loop H self nb cs trts be sm_id sgs
            (args @ map (\<lambda>srcs. \<lparr>t_sitecol = dc_sitecol self, t_sources = srcs,
                 t_cmaker = ContextMaker H (get_rlzs_by_gsim H (sg_trt sg) sm_id)
                              (maximum_distance (dc_oqparam self)),
                 t_quartets = quartets, t_imls = levels, t_trt_names = trts,
                 t_bin_edges = be, t_oqparam = dc_oqparam self\<rparr>)
               (split_in_blocks H (concat (map (split_filter H (dc_sitecol self)
                  (maximum_distance (dc_oqparam self))) (sg_sources sg))) nb)))"
      by simp
    from Cons.IH [OF this] show ?thesis
      by auto
  qed
qed

lemma smodel_loop_bin_edges:
  assumes "t \<in> set (fst (snd (smodel_loop H self nb cs trts be sms mp args lg)))"
  shows "t \<in> set args \<or> t_bin_edges t = be"
  using assms
proof (induction sms arbitrary: mp args lg)
  case Nil
  then show ?case by simp
next
  case (Cons sm sms)
  obtain e mp' lg' where sp: "site_poe_loop H self (length (dc_realizations self))
      (map fst (imtls (dc_oqparam self))) (zip (dc_sitecol self) cs) mp lg = (e, mp', lg')"
    by (cases "site_poe_loop H self (length (dc_realizations self))
      (map fst (imtls (dc_oqparam self))) (zip (dc_sitecol self) cs) mp lg") auto
  show ?case
  proof (cases e)
    case (Some err)
    then show ?thesis using sp Cons.prems by (simp add: Let_def)
  next
    case None
    show ?thesis
    proof (cases "check_poes H (length (dc_realizations self)) (sm_ordinal sm) (sm_name sm) mp'
                  [(poe, rlzi, imt). poe \<leftarrow> poes_disagg (dc_oqparam self),
                     rlzi \<leftarrow> dc_rlzs_by_smodel self (sm_ordinal sm),
                     imt \<leftarrow> map fst (imtls (dc_oqparam self))]")
      case (Some err)
      then show ?thesis using sp None Cons.prems by (simp add: Let_def)
    next
      case ok: None
      from Cons.prems sp None ok
      have "t \<in> set (fst (snd (smodel_loop H self nb cs trts be sms mp'
               (src_group_loop H self nb cs trts be (sm_ordinal sm) (src_groups sm) args) lg')))"
        by (simp add: Let_def)
      from Cons.IH [OF this] src_group_loop_bin_edges show ?thesis
        by blast
    qed
  qed
qed


lemma full_disaggregation_prelude_fails:
  assumes "\<not> prelude_ok self"
  shows "\<exists>e lg. full_disaggregation H self =
           (Some e, \<lparr>self_bin_edges = [], logged = lg, submitted = []\<rparr>)"
proof (cases "length (filter (\<lambda>effrup. effrup > 0) (dc_effrup self)) = 0")
  case True
  then show ?thesis
    by (simp add: full_disaggregation_def Let_def)
next
  case g: False
  show ?thesis
  proof (cases "concat (map src_groups (dc_source_models self)) = []")
    case True
    have e: "py_min (map sg_min_mag (concat (map src_groups (dc_source_models self))))
         = Inl (ValueError ''min() arg is an empty sequence'')"
      by (simp only: True list.map py_min_Nil)
    show ?thesis
      using g
      unfolding full_disaggregation_def Let_def e
      by simp
  next
    case sg: False
    then have w: "mag_bin_width (dc_oqparam self) = 0"
      using assms g by (simp add: prelude_ok_def num_grps_def all_src_groups_def)
    have mn: "py_min (map sg_min_mag (concat (map src_groups (dc_source_models self))))
         = Inr (Min (set (map sg_min_mag (concat (map src_groups (dc_source_models self))))))"
      using sg by (intro py_min_Min) simp
    have mx: "py_max (map sg_max_mag (concat (map src_groups (dc_source_models self))))
         = Inr (Max (set (map sg_max_mag (concat (map src_groups (dc_source_models self))))))"
      using sg by (intro py_max_Max) simp
    show ?thesis
      using g w
      unfolding full_disaggregation_def Let_def mn mx
      by simp
  qed
qed

lemma submitted_bin_edges:
  assumes "t \<in> set (submitted (snd (full_disaggregation H self)))"
  shows "t_bin_edges t = self_bin_edges (snd (full_disaggregation H self))"
proof (cases "prelude_ok self")
  case False
  from full_disaggregation_prelude_fails [OF this, of H] assms show ?thesis
    by auto
next
  case True
  obtain e args lg2 where sl: "smodel_loop H self (nblocks_of self) (site_curves self) (trts_of self)
             (fst (built_bin_edges H self)) (dc_source_models self) (\<lambda>_. 0) []
             (snd (built_bin_edges H self)) = (e, args, lg2)"
    by (cases "smodel_loop H self (nblocks_of self) (site_curves self) (trts_of self)
             (fst (built_bin_edges H self)) (dc_source_models self) (\<lambda>_. 0) []
             (snd (built_bin_edges H self))") auto
  have "t \<in> set args"
    using assms unfolding full_disaggregation_prelude_ok [OF True] sl
    by (cases e) simp_all
  then have "t \<in> set (fst (snd (smodel_loop H self (nblocks_of self) (site_curves self) (trts_of self)
             (fst (built_bin_edges H self)) (dc_source_models self) (\<lambda>_. 0) []
             (snd (built_bin_edges H self)))))"
    by (simp add: sl)
  from smodel_loop_bin_edges [OF this] have "t_bin_edges t = fst (built_bin_edges H self)"
    by simp
  moreover have "self_bin_edges (snd (full_disaggregation H self)) = fst (built_bin_edges H self)"
    unfolding full_disaggregation_prelude_ok [OF True] sl
    by (cases e) simp_all
  ultimately show ?thesis by simp
qed

lemma logged_far_site:
  assumes "prelude_ok self" and "s \<in> set (dc_sitecol self)"
    and "\<not> bb_bool H (dc_bb_dict self (site_sid s))"
  shows "(''site %d was too far, skipping disaggregation'', [LInt (site_sid s)])
           \<in> set (logged (snd (full_disaggregation H self)))"
proof -
  obtain e args lg2 where sl: "smodel_loop H self (nblocks_of self) (site_curves self) (trts_of self)
             (fst (built_bin_edges H self)) (dc_source_models self) (\<lambda>_. 0) []
             (snd (built_bin_edges H self)) = (e, args, lg2)"
    by (cases "smodel_loop H self (nblocks_of self) (site_curves self) (trts_of self)
             (fst (built_bin_edges H self)) (dc_source_models self) (\<lambda>_. 0) []
             (snd (built_bin_edges H self))") auto
  have "(''site %d was too far, skipping disaggregation'', [LInt (site_sid s)])
           \<in> set (snd (built_bin_edges H self))"
    unfolding built_bin_edges_def
    using assms(2,3) by (intro bin_edges_loop_logs_far) simp_all
  moreover have "set (snd (built_bin_edges H self)) \<subseteq> set lg2"
    using smodel_loop_log_mono [of "snd (built_bin_edges H self)" H self "nblocks_of self"
        "site_curves self" "trts_of self" "fst (built_bin_edges H self)" "dc_source_models self"
        "\<lambda>_. 0" "[]"] sl
    by simp
  moreover have "logged (snd (full_disaggregation H self)) = lg2"
    unfolding full_disaggregation_prelude_ok [OF assms(1)] sl
    by (cases e) simp_all
  ultimately show ?thesis by auto
qed

text \<open>
  C5. A site of the collection whose bounding box is empty is not a key of
  \<^verbatim>\<open>self.bin_edges\<close>, whatever else happens in \<open>full_disaggregation\<close>; once the statements
  before the loop raise nothing, the log holds the message that the site was too far.
  Every submitted task carries that dictionary, so the site is not a key of its
  \<^verbatim>\<open>bin_edges\<close>. In \<open>compute_disagg\<close> the iteration for a site that is not a key of
  \<^verbatim>\<open>bin_edges\<close> does nothing and raises nothing: the loop goes on as if the site were not
  there, and no key of a returned dictionary names the site.
\<close>

theorem far_site_skipped:
  assumes "s \<in> set (dc_sitecol self)" and "\<not> bb_bool H (dc_bb_dict self (site_sid s))"
  shows "map_of (self_bin_edges (snd (full_disaggregation H self))) (site_sid s) = None
     \<and> (prelude_ok self \<longrightarrow>
          (''site %d was too far, skipping disaggregation'', [LInt (site_sid s)])
            \<in> set (logged (snd (full_disaggregation H self))))
     \<and> (\<forall>t \<in> set (submitted (snd (full_disaggregation H self))).
          map_of (t_bin_edges t) (site_sid s) = None)
     \<and> (\<forall>t i rest mon result. map_of (t_bin_edges t) (site_sid s) = None \<longrightarrow>
          site_loop arr pmf t bd ((i, s) # rest) mon result
            = site_loop arr pmf t bd rest mon result)
     \<and> (\<forall>t result. map_of (t_bin_edges t) (site_sid s) = None \<and>
            compute_disagg collect_bins_data arr pmf t = Inr result \<longrightarrow>
          site_sid s \<notin> fst ` fst ` set result)"
proof -
  have absent: "map_of (self_bin_edges (snd (full_disaggregation H self))) (site_sid s) = None"
    using assms(2)
    by (simp add: full_disaggregation_bin_edges bin_edges_loop_map_of)
  have tasks: "map_of (t_bin_edges t) (site_sid s) = None"
    if "t \<in> set (submitted (snd (full_disaggregation H self)))" for t
    using submitted_bin_edges [OF that] absent by simp
  show ?thesis
    using absent tasks logged_far_site [OF _ assms] site_loop_skip compute_disagg_keys
    by blast
qed


theorem far_site_skipped_witness:
  "\<lparr>site_sid = 1, site_lon = 50, site_lat = 50\<rparr> \<in> set (dc_sitecol ex_calc)
   \<and> \<not> bb_bool ex_hazardlib (dc_bb_dict ex_calc 1)
   \<and> prelude_ok ex_calc
   \<and> map_of (self_bin_edges (snd (full_disaggregation ex_hazardlib ex_calc))) 1 = None
   \<and> (''site %d was too far, skipping disaggregation'', [LInt 1])
        \<in> set (logged (snd (full_disaggregation ex_hazardlib ex_calc)))
   \<and> submitted (snd (full_disaggregation ex_hazardlib ex_calc)) = [ex_task]
   \<and> map_of (t_bin_edges ex_task) 1 = None
   \<and> compute_disagg (\<lambda>trt_num srcs sitecol cmaker quartets imls tl n. Inr ex_bins_data)
        (\<lambda>bins edges. Inr (fst bins)) [([''Mag''], \<lambda>m. m)] ex_task
       = Inr [((0, 0, Some 0.1, ''PGA'', 0.15, [''Active Shallow Crust'']), [[6]])]
   \<and> 1 \<notin> fst ` fst ` set [((0::nat, 0::nat, Some (0.1::real), ''PGA'', 0.15::real,
                              [''Active Shallow Crust'']), [[6::real]])]"
proof -
  let ?s = "\<lparr>site_sid = 1, site_lon = 50, site_lat = 50\<rparr>"
  have m: "?s \<in> set (dc_sitecol ex_calc)"
    by (simp add: ex_calc_def)
  have b: "\<not> bb_bool ex_hazardlib (dc_bb_dict ex_calc (site_sid ?s))"
    by (simp add: ex_calc_def ex_hazardlib_def)
  have p: "prelude_ok ex_calc"
    by (simp add: prelude_ok_def num_grps_def all_src_groups_def ex_calc_def ex_oqparam_def)
  note t = far_site_skipped [OF m b,
      where collect_bins_data = "\<lambda>trt_num srcs sitecol cmaker quartets imls tl n. Inr ex_bins_data"
        and arr = "\<lambda>bins edges. Inr (fst bins)" and pmf = "[([''Mag''], \<lambda>m. m)]"]
  have c1: "map_of (self_bin_edges (snd (full_disaggregation ex_hazardlib ex_calc))) (site_sid ?s) = None"
    using t [THEN conjunct1] .
  have c2: "(''site %d was too far, skipping disaggregation'', [LInt (site_sid ?s)])
        \<in> set (logged (snd (full_disaggregation ex_hazardlib ex_calc)))"
    using t [THEN conjunct2, THEN conjunct1, rule_format, OF p] .
  have sub: "submitted (snd (full_disaggregation ex_hazardlib ex_calc)) = [ex_task]"
    by (simp add: ex_run)
  have c3: "map_of (t_bin_edges ex_task) (site_sid ?s) = None"
    using t [THEN conjunct2, THEN conjunct2, THEN conjunct1, rule_format, of ex_task] sub by simp
  have c5: "site_sid ?s \<notin> fst ` fst ` set [((0::nat, 0::nat, Some (0.1::real), ''PGA'', 0.15::real,
                              [''Active Shallow Crust'']), [[6::real]])]"
    using t [THEN conjunct2, THEN conjunct2, THEN conjunct2, THEN conjunct2, rule_format,
        OF conjI [OF c3 ex_compute]] .
  show ?thesis
    using m b p c1 c2 sub c3 c5 ex_compute by simp
qed

section \<open>The feasibility of the thresholds\<close>







































lemma ex_too_big_run:
  "full_disaggregation ex_hazardlib ex_calc_too_big =
     (Some (ValueError (POE_TOO_BIG ''0.5'' ''0'' ''b1'' ''0.3'' ''0'' ''PGA'')),
      \<lparr>self_bin_edges = [(0, ([5, 6, 7], [0, 10], [-1, 1], [-1, 1], [-3, 0, 3]))],
       logged =
         [(''hazard curve contains all zero probabilities; skipping site %d, rlz=%d'', [LInt 1, LInt 0]),
          (''bins %s for sid %d'', [LShape [2, 1, 1, 1, 2, 1], LInt 0]),
          (''site %d was too far, skipping disaggregation'', [LInt 1])],
       submitted = []\<rparr>)"
  by (simp add: full_disaggregation_def ex_calc_def ex_oqparam_def ex_hazardlib_def Let_def
     get_curves_def py_min_def py_max_def mag_edges_of_def arange_def linspace_def upt_rec
     ex_calc_too_big_def)








section \<open>Seismic source construction\<close>

text \<open>
  C10. Constructing a seismic source raises \<open>ValueError\<close> when the tectonic region type
  is not valid, raises \<open>ValueError\<close> when the rupture mesh spacing is not strictly
  positive (zero, a negative value and NaN all fail the test \<^verbatim>\<open>not spacing > 0\<close>), and
  otherwise stores the five arguments unchanged.
\<close>

theorem SeismicSource_init_validates:
  "(\<not> is_valid trt \<longrightarrow>
      SeismicSource_init is_valid repr sid nm trt m spacing =
        Inl (ValueError (''unknown tectonic region type '' @ repr trt)))
   \<and> (is_valid trt \<and> \<not> gt_zero spacing \<longrightarrow>
      SeismicSource_init is_valid repr sid nm trt m spacing =
        Inl (ValueError ''rupture mesh spacing must be positive''))
   \<and> (is_valid trt \<and> gt_zero spacing \<longrightarrow>
      SeismicSource_init is_valid repr sid nm trt m spacing =
        Inr \<lparr>source_id = sid, name = nm, tectonic_region_type = trt, mfd = m,
             rupture_mesh_spacing = spacing\<rparr>)
   \<and> \<not> gt_zero (Fin 0) \<and> \<not> gt_zero NaN \<and> \<not> gt_zero NegInf
   \<and> (\<forall>r. r \<le> 0 \<longrightarrow> \<not> gt_zero (Fin r))
   \<and> (\<forall>r. 0 < r \<longrightarrow> gt_zero (Fin r))"
  by (simp add: SeismicSource_init_def)

theorem SeismicSource_init_validates_witness:
  "SeismicSource_init (\<lambda>t. t = ''Active Shallow Crust'') (\<lambda>t. t) (1::nat) ''src''
      ''Volcanic'' () (Fin 2) = Inl (ValueError ''unknown tectonic region type Volcanic'')
   \<and> SeismicSource_init (\<lambda>t. t = ''Active Shallow Crust'') (\<lambda>t. t) (1::nat) ''src''
      ''Active Shallow Crust'' () NaN = Inl (ValueError ''rupture mesh spacing must be positive'')
   \<and> SeismicSource_init (\<lambda>t. t = ''Active Shallow Crust'') (\<lambda>t. t) (1::nat) ''src''
      ''Active Shallow Crust'' () (Fin 0) = Inl (ValueError ''rupture mesh spacing must be positive'')
   \<and> SeismicSource_init (\<lambda>t. t = ''Active Shallow Crust'') (\<lambda>t. t) (1::nat) ''src''
      ''Active Shallow Crust'' () (Fin (-1)) = Inl (ValueError ''rupture mesh spacing must be positive'')
   \<and> SeismicSource_init (\<lambda>t. t = ''Active Shallow Crust'') (\<lambda>t. t) (1::nat) ''src''
      ''Active Shallow Crust'' () (Fin 2) =
        Inr \<lparr>source_id = 1, name = ''src'', tectonic_region_type = ''Active Shallow Crust'',
             mfd = (), rupture_mesh_spacing = Fin 2\<rparr>"
  using SeismicSource_init_validates [where is_valid = "\<lambda>t. t = ''Active Shallow Crust''" and repr = "\<lambda>t. t"
      and sid = "1::nat" and nm = "''src''" and m = "()" and trt = "''Volcanic''" and spacing = "Fin 2"]
    SeismicSource_init_validates [where is_valid = "\<lambda>t. t = ''Active Shallow Crust''" and repr = "\<lambda>t. t"
      and sid = "1::nat" and nm = "''src''" and m = "()" and trt = "''Active Shallow Crust''" and spacing = "NaN"]
    SeismicSource_init_validates [where is_valid = "\<lambda>t. t = ''Active Shallow Crust''" and repr = "\<lambda>t. t"
      and sid = "1::nat" and nm = "''src''" and m = "()" and trt = "''Active Shallow Crust''" and spacing = "Fin 0"]
    SeismicSource_init_validates [where is_valid = "\<lambda>t. t = ''Active Shallow Crust''" and repr = "\<lambda>t. t"
      and sid = "1::nat" and nm = "''src''" and m = "()" and trt = "''Active Shallow Crust''" and spacing = "Fin (-1)"]
    SeismicSource_init_validates [where is_valid = "\<lambda>t. t = ''Active Shallow Crust''" and repr = "\<lambda>t. t"
      and sid = "1::nat" and nm = "''src''" and m = "()" and trt = "''Active Shallow Crust''" and spacing = "Fin 2"]
  by simp

end
